theory Spec2Isabelle
  imports Main "HOL-Library.Word"
begin

section \<open>Images and the threshold preprocessor (src/app.py, lines 113-118)\<close>

text \<open>
  A decoded bitmap is either a single-channel 8-bit image (Pillow mode \<open>L\<close>) or a
  three-channel one (mode \<open>RGB\<close>). Pixels are stored row by row. Image objects live in
  a store and are referred to by their index in it; every Pillow operation that returns
  an image allocates a new object and leaves the existing ones alone.
\<close>

type_synonym u8 = "8 word"
type_synonym rgb = "u8 \<times> u8 \<times> u8"

datatype image =
    ImgL "nat \<times> nat" "u8 list"
  | ImgRGB "nat \<times> nat" "rgb list"

fun img_size :: "image \<Rightarrow> nat \<times> nat" where
  "img_size (ImgL sz px) = sz"
| "img_size (ImgRGB sz px) = sz"

fun single_channel :: "image \<Rightarrow> bool" where
  "single_channel (ImgL sz px) = True"
| "single_channel (ImgRGB sz px) = False"

fun gray_pixels :: "image \<Rightarrow> u8 list" where
  "gray_pixels (ImgL sz px) = px"
| "gray_pixels (ImgRGB sz px) = []"

type_synonym store = "image list"
type_synonym ref = nat

definition alloc :: "store \<Rightarrow> image \<Rightarrow> store \<times> ref" where
  "alloc h im = (h @ [im], length h)"

text \<open>
  \<open>image.convert("L")\<close>: a copy of a grayscale image, or the luma of every pixel of a
  colour one. The luma transform belongs to the imaging library and is a parameter
  \<open>luma\<close>; its result is an 8-bit value.
\<close>

fun convert_L :: "(rgb \<Rightarrow> u8) \<Rightarrow> image \<Rightarrow> image" where
  "convert_L luma (ImgL sz px) = ImgL sz px"
| "convert_L luma (ImgRGB sz px) = ImgL sz (map luma px)"

definition image_convert_L :: "(rgb \<Rightarrow> u8) \<Rightarrow> store \<Rightarrow> ref \<Rightarrow> store \<times> ref" where
  "image_convert_L luma h r = alloc h (convert_L luma (h ! r))"

text \<open>
  \<open>image.point(f)\<close> with a function \<open>f\<close> on an 8-bit image: the library evaluates
  \<open>f\<close> on \<open>range(256)\<close> into a lookup table of 8-bit entries and maps every band of
  every pixel through the table.
\<close>

definition clip8 :: "int \<Rightarrow> u8" where
  "clip8 x = word_of_int (max 0 (min 255 x))"

definition build_lut :: "(int \<Rightarrow> int) \<Rightarrow> u8 list" where
  "build_lut f = map (\<lambda>i. clip8 (f (int i))) [0..<256]"

definition lut_at :: "u8 list \<Rightarrow> u8 \<Rightarrow> u8" where
  "lut_at lut v = lut ! unat v"

fun point :: "(int \<Rightarrow> int) \<Rightarrow> image \<Rightarrow> image" where
  "point f (ImgL sz px) = ImgL sz (map (lut_at (build_lut f)) px)"
| "point f (ImgRGB sz px) =
     ImgRGB sz (map (\<lambda>(r, g, b).
       (lut_at (build_lut f) r, lut_at (build_lut f) g, lut_at (build_lut f) b)) px)"

definition image_point :: "(int \<Rightarrow> int) \<Rightarrow> store \<Rightarrow> ref \<Rightarrow> store \<times> ref" where
  "image_point f h r = alloc h (point f (h ! r))"

text \<open>The lambda of line 117: \<open>lambda p: 255 if p > thresh else 0\<close>.\<close>

definition threshold_lambda :: "int \<Rightarrow> int \<Rightarrow> int" where
  "threshold_lambda thresh p = (if p > thresh then 255 else 0)"

text \<open>
  \<open>apply_threshold(image, thresh)\<close>: \<open>gray = image.convert("L")\<close>,
  \<open>bw = gray.point(lambda p: 255 if p > thresh else 0)\<close>, \<open>return bw\<close>.
\<close>

definition apply_threshold :: "(rgb \<Rightarrow> u8) \<Rightarrow> store \<Rightarrow> ref \<Rightarrow> int \<Rightarrow> store \<times> ref" where
  "apply_threshold luma h img thresh =
     (let (h1, gray) = image_convert_L luma h img;
          (h2, bw) = image_point (threshold_lambda thresh) h1 gray
      in (h2, bw))"

text \<open>
  What \<open>apply_threshold\<close> does to one grayscale pixel \<open>v\<close> under cutoff \<open>c\<close>: the
  entry of the lambda's lookup table at \<open>v\<close>.
\<close>

definition threshold :: "int \<Rightarrow> u8 \<Rightarrow> u8" where
  "threshold c v = lut_at (build_lut (threshold_lambda c)) v"

section \<open>The world outside the scripts\<close>

text \<open>
  Text is a \<open>string\<close>; non-ASCII text is held in its UTF-8 bytes. Everything the
  scripts call but do not implement (the widget values, the image decoder, the temporary
  directory, the external engine process and the engine's Python interface) is a field
  of an environment record, a function of the arguments the script passes.
\<close>

type_synonym path = string

definition nl :: string where
  "nl = [CHR 0x0A]"

definition em_dash :: string where
  "em_dash = [CHR 0xE2, CHR 0x80, CHR 0x94]"

definition DEFAULT_MODEL_PATH :: string where
  "DEFAULT_MODEL_PATH = ''models/vilne_yiddish_8a.mlmodel''"

text \<open>
  Exceptions. All of them are subclasses of \<open>Exception\<close>; \<open>PyException\<close> stands for
  every class the scripts do not name.
\<close>

datatype exn =
    FileNotFoundError string
  | CalledProcessError "string list" int string string
  | IsADirectoryError
  | UnicodeDecodeError
  | PyException string

text \<open>
  The file system maps a path to what is there. \<open>TextFile t\<close> is a regular file whose
  bytes are the UTF-8 encoding of the text \<open>t\<close>; \<open>BinaryFile\<close> is a regular file
  that is not UTF-8 text.
\<close>

datatype node = Dir | TextFile string | ImageFile image | BinaryFile

type_synonym filesystem = "path \<rightharpoonup> node"

text \<open>
  \<open>open(p, "r", encoding="utf8")\<close> passes no \<open>newline\<close> argument, so the file is
  read with universal newlines: in the decoded text every \<open>\r\n\<close> and every other
  \<open>\r\<close> becomes \<open>\n\<close>.
\<close>

fun universal_newlines :: "string \<Rightarrow> string" where
  "universal_newlines [] = []"
| "universal_newlines [c] = [if c = CHR 0x0D then CHR 0x0A else c]"
| "universal_newlines (c # d # cs) =
     (if c = CHR 0x0D
      then (if d = CHR 0x0A then CHR 0x0A # universal_newlines cs
            else CHR 0x0A # universal_newlines (d # cs))
      else c # universal_newlines (d # cs))"

text \<open>\<open>open(p, "r", encoding="utf8")\<close> followed by \<open>fh.read()\<close> on an existing path.\<close>

fun read_text :: "node \<Rightarrow> exn + string" where
  "read_text (TextFile t) = Inr (universal_newlines t)"
| "read_text Dir = Inl IsADirectoryError"
| "read_text (ImageFile im) = Inl UnicodeDecodeError"
| "read_text BinaryFile = Inl UnicodeDecodeError"

text \<open>\<open>os.path.join(a, b)\<close> for a relative second component.\<close>

definition os_path_join :: "path \<Rightarrow> path \<Rightarrow> path" where
  "os_path_join a b = (if a = [] \<or> last a = CHR ''/'' then a @ b else a @ ''/'' @ b)"

text \<open>
  How the attempt to run the external command ended: the executable was not found, the
  process could not be run for another reason, or it ran and exited with a status and
  the captured standard output and standard error.
\<close>

datatype proc_result =
    ExecNotFound string
  | ExecError string
  | Exited int string string

record completed_process =
  cp_stdout :: string
  cp_stderr :: string

text \<open>
  \<open>subprocess.run(cmd, capture_output=True, text=True, check=True)\<close>: with
  \<open>check=True\<close> a non-zero exit status raises \<open>CalledProcessError\<close>, which carries
  the captured output.
\<close>

fun subprocess_run :: "string list \<Rightarrow> proc_result \<Rightarrow> exn + completed_process" where
  "subprocess_run cmd (ExecNotFound m) = Inl (FileNotFoundError m)"
| "subprocess_run cmd (ExecError m) = Inl (PyException m)"
| "subprocess_run cmd (Exited rc out err) =
     (if rc \<noteq> 0 then Inl (CalledProcessError cmd rc out err)
      else Inr \<lparr>cp_stdout = out, cp_stderr = err\<rparr>)"

text \<open>
  Values of the engine's Python interface: a loaded model, and a recognition result,
  which is a \<open>list\<close>, a \<open>tuple\<close> or any other object.
\<close>

datatype model = Model nat

datatype pyval = PyList "pyval list" | PyTuple "pyval list" | PyObj nat

text \<open>\<open>sep.join(xs)\<close>.\<close>

fun str_join :: "string \<Rightarrow> string list \<Rightarrow> string" where
  "str_join sep [] = []"
| "str_join sep [x] = x"
| "str_join sep (x # y # ys) = x @ sep @ str_join sep (y # ys)"

text \<open>
  What is rendered on the page. A formatted message is a list of pieces: literal text,
  the string form of an exception, the string form of an integer. Every event but
  \<open>St_exception\<close> is a call the scripts make; \<open>St_exception e\<close> is the error box the
  framework's script runner renders for an exception \<open>e\<close> that left the script.
\<close>

datatype piece = Lit string | StrExn exn | StrInt int

datatype ui_event =
    St_set_page_config string string
  | St_title string
  | St_header string
  | St_subheader string
  | St_write "string list"
  | St_text string
  | St_markdown string
  | St_code string
  | St_rtl_css
  | St_text_input string string
  | St_slider string int int int
  | St_file_uploader string "string list"
  | St_image ref "piece list"
  | St_button string
  | St_success string
  | St_warning string
  | St_info string
  | St_error "piece list"
  | St_exception exn
  | St_text_area string string nat
  | St_download_button string string string string
  | Sidebar ui_event

text \<open>The calls that leave the script: the decoder, the process, the Python interface.\<close>

datatype call =
    Image_open string
  | Image_open_convert string string
  | Subprocess_run "string list"
  | Import_kraken
  | Load_any_model string
  | Rpred_recognize model "ref list"
  | Rpred_rpred model "ref list"

record world =
  fs :: filesystem
  heap :: store
  ui :: "ui_event list"
  calls :: "call list"

record env =
  text_input_model_path :: string
  slider_threshold :: int
  file_uploader :: "string option"
  button_run_ocr :: bool
  pil_open :: "string \<Rightarrow> exn + image"
  pil_open_convert :: "string \<Rightarrow> string \<Rightarrow> exn + image"
  luma :: "rgb \<Rightarrow> u8"
  mkdtemp :: "exn + path"
  image_save :: "image \<Rightarrow> path \<Rightarrow> exn option"
  run_process :: "string list \<Rightarrow> filesystem \<Rightarrow> proc_result \<times> filesystem"
  import_kraken :: "exn option"
  load_any_model :: "string \<Rightarrow> exn + model"
  rpred_recognize :: "model \<Rightarrow> image list \<Rightarrow> exn + pyval"
  rpred_rpred :: "model \<Rightarrow> image list \<Rightarrow> exn + pyval"
  py_str :: "pyval \<Rightarrow> string"

definition emits :: "ui_event list \<Rightarrow> world \<Rightarrow> world" where
  "emits es w = w\<lparr>ui := ui w @ es\<rparr>"

definition logs :: "call list \<Rightarrow> world \<Rightarrow> world" where
  "logs cs w = w\<lparr>calls := calls w @ cs\<rparr>"

text \<open>
  The normalisation both scripts apply to a fallback result:
  \<open>"\n".join([str(p) for p in preds])\<close> if \<open>isinstance(preds, list)\<close>, else
  \<open>str(preds)\<close>.
\<close>

fun preds_to_text :: "(pyval \<Rightarrow> string) \<Rightarrow> pyval \<Rightarrow> string" where
  "preds_to_text str (PyList ps) = str_join nl (map str ps)"
| "preds_to_text str preds = str preds"

text \<open>
  The two recognition call shapes, lines 80-84 of app_streamlit.py and 186-189 of
  app.py: \<open>rpred.recognize(model, [image])\<close>, and on any exception from it
  \<open>rpred.rpred(model, [image])\<close>.
\<close>

definition recognize_either :: "env \<Rightarrow> model \<Rightarrow> ref \<Rightarrow> world \<Rightarrow> (exn + pyval) \<times> world" where
  "recognize_either env m img w =
     (case rpred_recognize env m [heap w ! img] of
        Inr preds \<Rightarrow> (Inr preds, logs [Rpred_recognize m [img]] w)
      | Inl e \<Rightarrow>
          (rpred_rpred env m [heap w ! img],
           logs [Rpred_recognize m [img], Rpred_rpred m [img]] w))"

section \<open>src/app_streamlit.py\<close>

text \<open>The command of lines 43-53.\<close>

definition streamlit_cli_cmd :: "path \<Rightarrow> path \<Rightarrow> string \<Rightarrow> string list" where
  "streamlit_cli_cmd input_path output_path model_path =
     [''kraken'', ''-i'', input_path, output_path, ''ocr'', ''-m'', model_path,
      ''--threads'', ''1'']"

text \<open>
  The warning of line 70, which is also that of line 72 of app.py, and the warning of
  line 178 of app.py.
\<close>

definition cli_not_found_warning :: string where
  "cli_not_found_warning =
     ''Kraken CLI not found '' @ em_dash @ '' falling back to Python API (if available).'' @ nl @
     ''Install CLI with: `pip install kraken` or make sure `kraken` is in your PATH.''"

definition app_cli_not_found_warning :: string where
  "app_cli_not_found_warning =
     ''Kraken CLI not found '' @ em_dash @ '' attempting Kraken Python API fallback.''"

text \<open>The handler of line 95: \<open>except Exception as e\<close> around the fallback.\<close>

definition streamlit_fallback_failed :: "exn \<Rightarrow> world \<Rightarrow> world" where
  "streamlit_fallback_failed e w =
     emits [St_error [Lit ''Failed to use Kraken Python API: '', StrExn e],
            St_info ''Make sure the 'kraken' package is installed (pip install kraken) or the 'kraken' CLI is available in PATH'']
       w"

text \<open>
  Lines 72-97, the body of \<open>except FileNotFoundError\<close> after the warning: import the
  engine package, load the model, try the two call shapes, normalise and show the
  result; any exception on the way goes to the handler of line 95.
\<close>

definition streamlit_fallback :: "env \<Rightarrow> string \<Rightarrow> ref \<Rightarrow> world \<Rightarrow> world" where
  "streamlit_fallback env model_path img w =
     (case import_kraken env of
        Some e \<Rightarrow> streamlit_fallback_failed e (logs [Import_kraken] w)
      | None \<Rightarrow>
          let w1 = emits [St_text ''Running Kraken using Python API...'']
                     (logs [Import_kraken, Load_any_model model_path] w)
          in case load_any_model env model_path of
               Inl e \<Rightarrow> streamlit_fallback_failed e w1
             | Inr m \<Rightarrow>
                 (case recognize_either env m img w1 of
                    (Inl e, w2) \<Rightarrow> streamlit_fallback_failed e w2
                  | (Inr preds, w2) \<Rightarrow>
                      let text_out = preds_to_text (py_str env) preds
                      in emits [St_success ''OCR completed via Kraken Python API'',
                                St_text_area ''Recognized text'' text_out 300] w2))"

text \<open>The \<open>except\<close> clauses of lines 69, 99 and 104, in the order they are tried.\<close>

fun streamlit_except :: "env \<Rightarrow> string \<Rightarrow> ref \<Rightarrow> exn \<Rightarrow> world \<Rightarrow> world" where
  "streamlit_except env model_path img (FileNotFoundError m) w =
     streamlit_fallback env model_path img
       (emits [St_warning cli_not_found_warning] w)"
| "streamlit_except env model_path img (CalledProcessError cmd rc out err) w =
     emits [St_error [Lit ''Kraken CLI failed: '', StrExn (CalledProcessError cmd rc out err)],
            St_write [''STDOUT:'' @ nl, out],
            St_write [''STDERR:'' @ nl, err]] w"
| "streamlit_except env model_path img e w =
     emits [St_error [Lit ''Unexpected error while running OCR: '', StrExn e]] w"

text \<open>
  Lines 43-105: build the command, run it, and inside the \<open>try\<close> read the output file
  if it exists. The external process may change the file system.
\<close>

definition streamlit_try_cli :: "env \<Rightarrow> string \<Rightarrow> ref \<Rightarrow> path \<Rightarrow> path \<Rightarrow> world \<Rightarrow> world" where
  "streamlit_try_cli env model_path img input_path output_path w =
     (let cli_cmd = streamlit_cli_cmd input_path output_path model_path;
          w1 = emits [St_text ''Attempting to run Kraken CLI...''] w;
          (r, fs') = run_process env cli_cmd (fs w1);
          w2 = logs [Subprocess_run cli_cmd] (w1\<lparr>fs := fs'\<rparr>)
      in case subprocess_run cli_cmd r of
           Inl e \<Rightarrow> streamlit_except env model_path img e w2
         | Inr proc \<Rightarrow>
             (case fs w2 output_path of
                Some file \<Rightarrow>
                  (case read_text file of
                     Inl e \<Rightarrow> streamlit_except env model_path img e w2
                   | Inr result \<Rightarrow>
                       emits [St_success ''OCR completed via Kraken CLI'',
                              St_text_area ''Recognized text'' result 300] w2)
              | None \<Rightarrow>
                  emits [St_error [Lit ''Kraken CLI ran but no output file created.''],
                         St_write [cp_stdout proc],
                         St_write [cp_stderr proc]] w2))"

text \<open>
  Lines 37-105, the body of \<open>if st.button("Run OCR")\<close>. The temporary directory and
  the saved image come before the \<open>try\<close>: an exception there leaves the script.
\<close>

definition streamlit_run_ocr :: "env \<Rightarrow> string \<Rightarrow> ref \<Rightarrow> world \<Rightarrow> exn option \<times> world" where
  "streamlit_run_ocr env model_path img w =
     (case mkdtemp env of
        Inl e \<Rightarrow> (Some e, w)
      | Inr tmpdir \<Rightarrow>
          let w1 = w\<lparr>fs := (fs w)(tmpdir \<mapsto> Dir)\<rparr>;
              input_path = os_path_join tmpdir ''input.png'';
              output_path = os_path_join tmpdir ''output.txt''
          in case image_save env (heap w1 ! img) input_path of
               Some e \<Rightarrow> (Some e, w1)
             | None \<Rightarrow>
                 (None,
                  streamlit_try_cli env model_path img input_path output_path
                    (w1\<lparr>fs := (fs w1)(input_path \<mapsto> ImageFile (heap w1 ! img))\<rparr>)))"

text \<open>
  Lines 28-32: \<open>Image.open(uploaded_file).convert("L")\<close>, and on any exception
  \<open>Image.open(uploaded_file).convert("RGB")\<close>, which no handler surrounds.
\<close>

definition decode_upload :: "env \<Rightarrow> string \<Rightarrow> world \<Rightarrow> (exn + image) \<times> world" where
  "decode_upload env uploaded_file w =
     (case pil_open_convert env uploaded_file ''L'' of
        Inr im \<Rightarrow> (Inr im, logs [Image_open_convert uploaded_file ''L''] w)
      | Inl e \<Rightarrow>
          (pil_open_convert env uploaded_file ''RGB'',
           logs [Image_open_convert uploaded_file ''L'',
                 Image_open_convert uploaded_file ''RGB''] w))"

text \<open>Lines 107-114, the help section in the sidebar.\<close>

definition streamlit_sidebar :: "world \<Rightarrow> world" where
  "streamlit_sidebar w =
     emits [Sidebar (St_header ''Run instructions''),
            Sidebar (St_markdown ''1. Install the required dependencies in your environment:''),
            Sidebar (St_code ''pip install streamlit pillow kraken''),
            Sidebar (St_markdown ''2. Run the app:''),
            Sidebar (St_code ''streamlit run app_streamlit.py''),
            Sidebar (St_markdown ''If you prefer the Kraken CLI (recommended), ensure `kraken` is on your PATH.'')]
       w"

text \<open>Lines 19-25, what every run renders first.\<close>

definition streamlit_header :: "ui_event list" where
  "streamlit_header =
     [St_set_page_config ''My Kraken Model'' ''centered'',
      St_title ''My Kraken Model'',
      St_write [''Upload an image; text will be recognized using the Kraken HTR model.''],
      St_text_input ''Model path'' DEFAULT_MODEL_PATH,
      St_file_uploader ''Upload an image'' [''png'', ''jpg'', ''jpeg'', ''tif'', ''tiff'']]"

text \<open>
  One run of the whole script. The result is the exception that left the script, if
  any, and the world it leaves behind.
\<close>

definition app_streamlit :: "env \<Rightarrow> world \<Rightarrow> exn option \<times> world" where
  "app_streamlit env w =
     (let w1 = emits streamlit_header w;
          model_path = text_input_model_path env
      in case file_uploader env of
           None \<Rightarrow> (None, streamlit_sidebar w1)
         | Some uploaded_file \<Rightarrow>
             (case decode_upload env uploaded_file w1 of
                (Inl e, w2) \<Rightarrow> (Some e, w2)
              | (Inr im, w2) \<Rightarrow>
                  let (h, img) = alloc (heap w2) im;
                      w3 = emits [St_image img [Lit ''Uploaded image''], St_button ''Run OCR'']
                             (w2\<lparr>heap := h\<rparr>)
                  in if button_run_ocr env
                     then (case streamlit_run_ocr env model_path img w3 of
                             (Some e, w4) \<Rightarrow> (Some e, w4)
                           | (None, w4) \<Rightarrow> (None, streamlit_sidebar w4))
                     else (None, streamlit_sidebar w3)))"

section \<open>src/app.py\<close>

text \<open>
  The file holds two scripts. The first (lines 13-73) is the script of
  app_streamlit.py with another command. The second (lines 89-238) stands, indented,
  inside the \<open>try\<close> that the first opens at line 74 in its
  \<open>except FileNotFoundError\<close> branch; that \<open>try\<close> has no handler down to the end of
  the file, so the embedding lets an exception of the second script pass through it.
\<close>

subsection \<open>The second script, lines 89-238\<close>

text \<open>The command of lines 152-162.\<close>

definition app_cli_cmd :: "path \<Rightarrow> path \<Rightarrow> string \<Rightarrow> string list" where
  "app_cli_cmd processed_input_path output_path model_path =
     [''kraken'', ''-i'', processed_input_path, output_path, ''binarize'', ''segment'',
      ''ocr'', ''-m'', model_path]"

text \<open>The handler of line 198. \<open>result_text\<close> keeps the value it had, \<open>None\<close>.\<close>

definition app_fallback_failed :: "exn \<Rightarrow> world \<Rightarrow> string option \<times> world" where
  "app_fallback_failed e w =
     (None,
      emits [St_error [Lit ''Failed to use Kraken Python API: '', StrExn e],
             St_info ''Install the 'kraken' package or ensure the 'kraken' CLI is available in PATH.'']
        w)"

text \<open>Lines 179-200, after the warning. The result is the new \<open>result_text\<close>.\<close>

definition app_fallback :: "env \<Rightarrow> string \<Rightarrow> ref \<Rightarrow> world \<Rightarrow> string option \<times> world" where
  "app_fallback env model_path processed w =
     (case import_kraken env of
        Some e \<Rightarrow> app_fallback_failed e (logs [Import_kraken] w)
      | None \<Rightarrow>
          let w1 = emits [St_text ''Loading model and running Kraken Python API...'']
                     (logs [Import_kraken, Load_any_model model_path] w)
          in case load_any_model env model_path of
               Inl e \<Rightarrow> app_fallback_failed e w1
             | Inr m \<Rightarrow>
                 (case recognize_either env m processed w1 of
                    (Inl e, w2) \<Rightarrow> app_fallback_failed e w2
                  | (Inr preds, w2) \<Rightarrow>
                      (Some (preds_to_text (py_str env) preds),
                       emits [St_success ''OCR completed via Kraken Python API''] w2)))"

text \<open>The \<open>except\<close> clauses of lines 177, 202 and 207.\<close>

fun app_except :: "env \<Rightarrow> string \<Rightarrow> ref \<Rightarrow> exn \<Rightarrow> world \<Rightarrow> string option \<times> world" where
  "app_except env model_path processed (FileNotFoundError m) w =
     app_fallback env model_path processed
       (emits [St_warning app_cli_not_found_warning] w)"
| "app_except env model_path processed (CalledProcessError cmd rc out err) w =
     (None,
      emits [St_error [Lit ''Kraken CLI failed: '', StrExn (CalledProcessError cmd rc out err)],
             St_write [''STDOUT:'' @ nl, out],
             St_write [''STDERR:'' @ nl, err]] w)"
| "app_except env model_path processed e w =
     (None, emits [St_error [Lit ''Unexpected error while running OCR: '', StrExn e]] w)"

text \<open>Lines 152-208.\<close>

definition app_try_cli ::
  "env \<Rightarrow> string \<Rightarrow> ref \<Rightarrow> path \<Rightarrow> path \<Rightarrow> world \<Rightarrow> string option \<times> world" where
  "app_try_cli env model_path processed processed_input_path output_path w =
     (let cli_cmd = app_cli_cmd processed_input_path output_path model_path;
          w1 = emits [St_text ''Attempting to run Kraken CLI...''] w;
          (r, fs') = run_process env cli_cmd (fs w1);
          w2 = logs [Subprocess_run cli_cmd] (w1\<lparr>fs := fs'\<rparr>)
      in case subprocess_run cli_cmd r of
           Inl e \<Rightarrow> app_except env model_path processed e w2
         | Inr proc \<Rightarrow>
             (case fs w2 output_path of
                Some file \<Rightarrow>
                  (case read_text file of
                     Inl e \<Rightarrow> app_except env model_path processed e w2
                   | Inr result_text \<Rightarrow>
                       (Some result_text, emits [St_success ''OCR completed via Kraken CLI''] w2))
              | None \<Rightarrow>
                  (None,
                   emits [St_error [Lit ''Kraken CLI ran but did not produce an output file.''],
                          St_write [cp_stdout proc],
                          St_write [cp_stderr proc]] w2)))"

text \<open>
  Lines 144-208, the body of \<open>if st.button("Run OCR")\<close>: \<open>Inl\<close> is an exception that
  leaves the script, \<open>Inr\<close> the value of \<open>result_text\<close> afterwards.
\<close>

definition app_run_ocr ::
  "env \<Rightarrow> string \<Rightarrow> ref \<Rightarrow> world \<Rightarrow> (exn + string option) \<times> world" where
  "app_run_ocr env model_path processed w =
     (case mkdtemp env of
        Inl e \<Rightarrow> (Inl e, w)
      | Inr tmpdir \<Rightarrow>
          let w1 = w\<lparr>fs := (fs w)(tmpdir \<mapsto> Dir)\<rparr>;
              processed_input_path = os_path_join tmpdir ''input_processed.png'';
              output_path = os_path_join tmpdir ''output.txt''
          in case image_save env (heap w1 ! processed) processed_input_path of
               Some e \<Rightarrow> (Inl e, w1)
             | None \<Rightarrow>
                 (case app_try_cli env model_path processed processed_input_path output_path
                         (w1\<lparr>fs := (fs w1)(processed_input_path \<mapsto>
                                 ImageFile (heap w1 ! processed))\<rparr>) of
                    (result_text, w2) \<Rightarrow> (Inr result_text, w2)))"

text \<open>Lines 98-121.\<close>

definition app_header :: "ui_event list" where
  "app_header =
     [St_set_page_config ''Vilne Yiddish OCR'' ''centered'',
      St_title (''Vilne Yiddish OCR '' @ em_dash @ '' Kraken''),
      St_write [''Upload an image and tune the binarization threshold until the letters are crisp.''],
      Sidebar (St_header ''Settings''),
      Sidebar (St_text_input ''Model path'' DEFAULT_MODEL_PATH),
      Sidebar (St_slider ''Binarization Threshold'' 0 255 128),
      Sidebar (St_markdown ''---''),
      Sidebar (St_markdown ''Dependencies:''),
      Sidebar (St_code ''pip install -r requirements.txt''),
      St_file_uploader ''Upload an image'' [''png'', ''jpg'', ''jpeg'', ''tif'', ''tiff'']]"

text \<open>
  Lines 212-238: the style block (\<open>St_rtl_css\<close> stands for the markdown of lines
  213-225), then the text and the download button if \<open>result_text\<close> is truthy, that
  is, a non-empty string.
\<close>

definition app_show_result :: "string option \<Rightarrow> world \<Rightarrow> world" where
  "app_show_result result_text w =
     (let w1 = emits [St_rtl_css] w
      in case result_text of
           None \<Rightarrow> w1
         | Some t \<Rightarrow>
             if t = [] then w1
             else emits [St_subheader ''Recognized text'',
                         St_text_area ''Recognized text'' t 300,
                         St_download_button ''Download Text'' t ''recognized.txt'' ''text/plain'']
                    w1)"

text \<open>One run of the second script.\<close>

definition app_second :: "env \<Rightarrow> world \<Rightarrow> exn option \<times> world" where
  "app_second env w =
     (let w1 = emits app_header w;
          model_path = text_input_model_path env;
          threshold = slider_threshold env
      in case file_uploader env of
           None \<Rightarrow> (None, w1)
         | Some uploaded_file \<Rightarrow>
             (case pil_open env uploaded_file of
                Inl e \<Rightarrow>
                  (None, emits [St_error [Lit ''Failed to open image: '', StrExn e]]
                           (logs [Image_open uploaded_file] w1))
              | Inr im \<Rightarrow>
                  let (h1, orig) = alloc (heap w1) im;
                      w2 = emits [St_subheader ''Original Image'', St_image orig []]
                             (logs [Image_open uploaded_file] (w1\<lparr>heap := h1\<rparr>));
                      (h2, processed) = apply_threshold (luma env) (heap w2) orig threshold;
                      w3 = emits [St_subheader ''Processed Image (Black & White)'',
                                  St_image processed [Lit ''Threshold = '', StrInt threshold],
                                  St_button ''Run OCR'']
                             (w2\<lparr>heap := h2\<rparr>)
                  in if button_run_ocr env
                     then (case app_run_ocr env model_path processed w3 of
                             (Inl e, w4) \<Rightarrow> (Some e, w4)
                           | (Inr result_text, w4) \<Rightarrow> (None, app_show_result result_text w4))
                     else (None, app_show_result None w3)))"

subsection \<open>The first script, lines 13-73\<close>

text \<open>The command of lines 45-55.\<close>

definition app_first_cli_cmd :: "path \<Rightarrow> path \<Rightarrow> string \<Rightarrow> string list" where
  "app_first_cli_cmd input_path output_path model_path =
     [''kraken'', ''-i'', input_path, output_path, ''binarize'', ''segment'', ''ocr'', ''-m'',
      model_path]"

text \<open>
  The one \<open>except\<close> clause of the first script's \<open>try\<close> (line 71): the warning, then
  the second script, run on its own widget values \<open>env2\<close>. The clauses of lines 202
  and 207 belong to the second script's \<open>try\<close>, so every other exception leaves the
  first script.
\<close>

fun app_first_except :: "env \<Rightarrow> exn \<Rightarrow> world \<Rightarrow> exn option \<times> world" where
  "app_first_except env2 (FileNotFoundError m) w =
     app_second env2
       (emits [St_warning cli_not_found_warning] w)"
| "app_first_except env2 e w = (Some e, w)"

text \<open>Lines 45-73.\<close>

definition app_first_try_cli ::
  "env \<Rightarrow> env \<Rightarrow> string \<Rightarrow> path \<Rightarrow> path \<Rightarrow> world \<Rightarrow> exn option \<times> world" where
  "app_first_try_cli env env2 model_path input_path output_path w =
     (let cli_cmd = app_first_cli_cmd input_path output_path model_path;
          w1 = emits [St_text ''Attempting to run Kraken CLI...''] w;
          (r, fs') = run_process env cli_cmd (fs w1);
          w2 = logs [Subprocess_run cli_cmd] (w1\<lparr>fs := fs'\<rparr>)
      in case subprocess_run cli_cmd r of
           Inl e \<Rightarrow> app_first_except env2 e w2
         | Inr proc \<Rightarrow>
             (case fs w2 output_path of
                Some file \<Rightarrow>
                  (case read_text file of
                     Inl e \<Rightarrow> app_first_except env2 e w2
                   | Inr result \<Rightarrow>
                       (None,
                        emits [St_success ''OCR completed via Kraken CLI'',
                               St_text_area ''Recognized text'' result 300] w2))
              | None \<Rightarrow>
                  (None,
                   emits [St_error [Lit ''Kraken CLI ran but no output file created.''],
                          St_write [cp_stdout proc],
                          St_write [cp_stderr proc]] w2)))"

text \<open>Lines 39-73, the body of \<open>if st.button("Run OCR")\<close>.\<close>

definition app_first_run_ocr ::
  "env \<Rightarrow> env \<Rightarrow> string \<Rightarrow> ref \<Rightarrow> world \<Rightarrow> exn option \<times> world" where
  "app_first_run_ocr env env2 model_path img w =
     (case mkdtemp env of
        Inl e \<Rightarrow> (Some e, w)
      | Inr tmpdir \<Rightarrow>
          let w1 = w\<lparr>fs := (fs w)(tmpdir \<mapsto> Dir)\<rparr>;
              input_path = os_path_join tmpdir ''input.png'';
              output_path = os_path_join tmpdir ''output.txt''
          in case image_save env (heap w1 ! img) input_path of
               Some e \<Rightarrow> (Some e, w1)
             | None \<Rightarrow>
                 app_first_try_cli env env2 model_path input_path output_path
                   (w1\<lparr>fs := (fs w1)(input_path \<mapsto> ImageFile (heap w1 ! img))\<rparr>))"

text \<open>One run of the first script (lines 21-73); the decoding is that of lines 30-34.\<close>

definition app_first :: "env \<Rightarrow> env \<Rightarrow> world \<Rightarrow> exn option \<times> world" where
  "app_first env env2 w =
     (let w1 = emits streamlit_header w;
          model_path = text_input_model_path env
      in case file_uploader env of
           None \<Rightarrow> (None, w1)
         | Some uploaded_file \<Rightarrow>
             (case decode_upload env uploaded_file w1 of
                (Inl e, w2) \<Rightarrow> (Some e, w2)
              | (Inr im, w2) \<Rightarrow>
                  let (h, img) = alloc (heap w2) im;
                      w3 = emits [St_image img [Lit ''Uploaded image''], St_button ''Run OCR'']
                             (w2\<lparr>heap := h\<rparr>)
                  in if button_run_ocr env
                     then app_first_run_ocr env env2 model_path img w3
                     else (None, w3)))"

section \<open>The script runner\<close>

text \<open>
  The scripts are started with \<open>streamlit run\<close>. The runner executes a script from top
  to bottom; when an exception leaves the script, the runner catches it and renders it
  on the page as an error message, below what the script had rendered until then, and
  the server goes on.
\<close>

fun streamlit_run :: "exn option \<times> world \<Rightarrow> world" where
  "streamlit_run (None, w) = w"
| "streamlit_run (Some e, w) = emits [St_exception e] w"

section \<open>Reading a run\<close>

text \<open>
  What the user sees: an error message, a displayed bitmap, the button that starts the
  OCR step.
\<close>

fun is_error_message :: "ui_event \<Rightarrow> bool" where
  "is_error_message (St_error m) = True"
| "is_error_message (St_exception e) = True"
| "is_error_message ev = False"

fun is_bitmap :: "ui_event \<Rightarrow> bool" where
  "is_bitmap (St_image r c) = True"
| "is_bitmap ev = False"

fun is_run_button :: "ui_event \<Rightarrow> bool" where
  "is_run_button (St_button l) = (l = ''Run OCR'')"
| "is_run_button ev = False"

text \<open>The decoding attempts of the first scripts among the calls of a run.\<close>

fun is_open_convert :: "call \<Rightarrow> bool" where
  "is_open_convert (Image_open_convert f m) = True"
| "is_open_convert c = False"

definition decode_attempts :: "call list \<Rightarrow> call list" where
  "decode_attempts cs = filter is_open_convert cs"

section \<open>A concrete environment\<close>

text \<open>
  One environment and one starting world on which the theorems below are instantiated:
  a two-pixel grayscale upload, an engine process that exits with status zero and
  writes the output file, and a Python interface whose first call shape raises and
  whose second returns a list of two results.
\<close>

definition demo_image :: image where
  "demo_image = ImgL (2, 1) [10, 200]"

fun demo_str :: "pyval \<Rightarrow> string" where
  "demo_str (PyObj n) = (if n = 0 then ''shalom'' else ''olam'')"
| "demo_str (PyList ps) = ''['' @ str_join '', '' (map demo_str ps) @ '']''"
| "demo_str (PyTuple ps) = ''('' @ str_join '', '' (map demo_str ps) @ '')''"

definition demo_env :: env where
  "demo_env =
     \<lparr>text_input_model_path = ''models/vilne_yiddish_8a.mlmodel'',
      slider_threshold = 128,
      file_uploader = Some ''PNG'',
      button_run_ocr = True,
      pil_open = (\<lambda>b. Inr demo_image),
      pil_open_convert = (\<lambda>b m. Inr demo_image),
      luma = (\<lambda>(r, g, b). g),
      mkdtemp = Inr ''/tmp/tmpk'',
      image_save = (\<lambda>im p. None),
      run_process = (\<lambda>cmd f. (Exited 0 ''out'' ''err'', f(''/tmp/tmpk/output.txt'' \<mapsto> TextFile ''abc''))),
      import_kraken = None,
      load_any_model = (\<lambda>p. Inr (Model 0)),
      rpred_recognize = (\<lambda>m ims. Inl (PyException ''no attribute recognize'')),
      rpred_rpred = (\<lambda>m ims. Inr (PyList [PyObj 0, PyObj 1])),
      py_str = demo_str\<rparr>"

definition demo_world :: world where
  "demo_world = \<lparr>fs = Map.empty, heap = [demo_image], ui = [], calls = []\<rparr>"

text \<open>
  Variations: the engine executable is missing; the engine package cannot be imported
  either; the model file cannot be loaded; both recognition call shapes raise; the first call shape returns a tuple;
  the output file has a Windows line ending; the upload cannot be decoded.
\<close>

definition demo_env_missing_cli :: env where
  "demo_env_missing_cli =
     demo_env\<lparr>run_process := \<lambda>cmd f. (ExecNotFound ''kraken'', f)\<rparr>"

definition demo_env_no_package :: env where
  "demo_env_no_package =
     demo_env_missing_cli\<lparr>import_kraken := Some (PyException ''No module named kraken'')\<rparr>"

definition demo_env_no_model :: env where
  "demo_env_no_model =
     demo_env_missing_cli\<lparr>load_any_model := \<lambda>p. Inl (FileNotFoundError ''no such model file'')\<rparr>"

definition demo_env_both_raise :: env where
  "demo_env_both_raise =
     demo_env_missing_cli\<lparr>rpred_rpred := \<lambda>m ims. Inl (PyException ''unexpected arguments'')\<rparr>"

definition demo_env_tuple :: env where
  "demo_env_tuple =
     demo_env_missing_cli\<lparr>rpred_recognize := \<lambda>m ims. Inr (PyTuple [PyObj 0, PyObj 1])\<rparr>"


definition demo_env_undecodable :: env where
  "demo_env_undecodable =
     demo_env\<lparr>pil_open_convert := \<lambda>b m. Inl (PyException ''cannot identify image file'')\<rparr>"

section \<open>The threshold preprocessor\<close>

lemma unat_u8_less: "unat (v :: u8) < 256"
  using unsigned_less [of v, where 'a=nat] by simp

lemma uint_u8_le: "uint (v :: u8) \<le> 255"
  using uint_lt2p [of v] by simp

lemma lut_at_build_lut: "lut_at (build_lut f) v = clip8 (f (uint v))"
  using unat_u8_less [of v] by (simp add: lut_at_def build_lut_def)

lemma threshold_eq: "threshold c v = (if c < uint v then 255 else 0)"
  by (simp add: threshold_def lut_at_build_lut threshold_lambda_def clip8_def)

lemma point_threshold_lambda:
  "point (threshold_lambda c) (ImgL sz px) = ImgL sz (map (threshold c) px)"
  by (simp add: threshold_def)

lemma apply_threshold_eq:
  "apply_threshold lum h r c =
     (h @ [convert_L lum (h ! r), ImgL (img_size (h ! r))
             (map (threshold c) (gray_pixels (convert_L lum (h ! r))))],
      Suc (length h))"
  by (cases "h ! r")
     (simp_all add: apply_threshold_def image_convert_L_def image_point_def alloc_def
        threshold_def nth_append)



lemma threshold_lambda_idem:
  "0 \<le> p \<Longrightarrow> p \<le> 255 \<Longrightarrow>
   threshold_lambda c (threshold_lambda c p) = threshold_lambda c p"
  by (simp add: threshold_lambda_def)

lemma threshold_idem: "threshold c (threshold c v) = threshold c v"
proof (cases "c < uint v")
  case True
  then have "c < 255" using uint_u8_le [of v] by linarith
  with True show ?thesis by (simp add: threshold_eq)
next
  case False
  have "0 \<le> uint v" by simp
  with False have "\<not> c < 0" by linarith
  with False show ?thesis by (simp add: threshold_eq)
qed

text \<open>
  C7. The threshold preprocessor is idempotent: for every pixel intensity \<open>v\<close> and
  every cutoff \<open>c\<close>, thresholding twice with the same cutoff equals thresholding
  once. This holds of the table lookup on 8-bit pixels, of the lambda itself on the
  integers 0..255 it is evaluated on, and of \<open>apply_threshold\<close> on whole images.
\<close>

theorem threshold_idempotent:
  "threshold c (threshold c v) = threshold c v
   \<and> (0 \<le> p \<and> p \<le> 255 \<longrightarrow>
        threshold_lambda c (threshold_lambda c p) = threshold_lambda c p)
   \<and> (r < length h \<longrightarrow>
        (case apply_threshold lum h r c of (h1, r1) \<Rightarrow>
           case apply_threshold lum h1 r1 c of (h2, r2) \<Rightarrow> h2 ! r2 = h1 ! r1))"
proof (intro conjI impI)
  show "threshold c (threshold c v) = threshold c v"
    by (rule threshold_idem)
next
  assume "0 \<le> p \<and> p \<le> 255"
  then show "threshold_lambda c (threshold_lambda c p) = threshold_lambda c p"
    by (simp add: threshold_lambda_idem)
next
  assume "r < length h"
  let ?gray = "convert_L lum (h ! r)"
  let ?bw = "ImgL (img_size (h ! r)) (map (threshold c) (gray_pixels ?gray))"
  have first: "apply_threshold lum h r c = (h @ [?gray, ?bw], Suc (length h))"
    by (rule apply_threshold_eq)
  have again: "(h @ [?gray, ?bw]) ! Suc (length h) = ?bw"
    by (simp add: nth_append)
  have "map (threshold c) (map (threshold c) (gray_pixels ?gray))
          = map (threshold c) (gray_pixels ?gray)"
    by (simp add: threshold_idem)
  with first again
  show "case apply_threshold lum h r c of (h1, r1) \<Rightarrow>
          case apply_threshold lum h1 r1 c of (h2, r2) \<Rightarrow> h2 ! r2 = h1 ! r1"
    by (simp add: apply_threshold_eq nth_append)
qed

theorem threshold_idempotent_witness:
  "(0::int) \<le> 200 \<and> (200::int) \<le> 255 \<and> (0::nat) < length [demo_image]
   \<and> threshold 128 (threshold 128 200) = threshold 128 200
   \<and> threshold_lambda 128 (threshold_lambda 128 200) = threshold_lambda 128 200
   \<and> threshold_lambda 128 200 = 255
   \<and> fst (apply_threshold (\<lambda>(r, g, b). g) [demo_image] 0 128)
       ! snd (apply_threshold (\<lambda>(r, g, b). g) [demo_image] 0 128) = ImgL (2, 1) [0, 255]
   \<and> (case apply_threshold (\<lambda>(r, g, b). g) [demo_image] 0 128 of (h1, r1) \<Rightarrow>
         case apply_threshold (\<lambda>(r, g, b). g) h1 r1 128 of (h2, r2) \<Rightarrow> h2 ! r2 = h1 ! r1)"
  using threshold_idempotent [of 128 200 200 0 "[demo_image]" "\<lambda>(r, g, b). g"]
  by (simp add: threshold_lambda_def apply_threshold_eq threshold_eq demo_image_def)

text \<open>
  Outside the pixel range the lambda alone is not idempotent: a negative input under
  a negative cutoff.
\<close>

lemma threshold_lambda_outside_range:
  "threshold_lambda (- 3) (threshold_lambda (- 3) (- 5)) \<noteq> threshold_lambda (- 3) (- 5)"
  by (simp add: threshold_lambda_def)

text \<open>
  C10. For every input image, grayscale or RGB, and every cutoff, \<open>apply_threshold\<close>
  first converts the image to grayscale and returns a new single-channel image of the
  same size whose every pixel is 0 or 255; the input image object, like every object
  that existed before the call, is left as it was.
\<close>

theorem apply_threshold_binary:
  assumes "r < length h"
  shows "case apply_threshold lum h r c of (h', bw) \<Rightarrow>
           bw \<noteq> r \<and> length h \<le> bw \<and> bw < length h'
           \<and> (\<forall>i < length h. h' ! i = h ! i)
           \<and> h' ! length h = convert_L lum (h ! r)
           \<and> h' ! bw = point (threshold_lambda c) (convert_L lum (h ! r))
           \<and> single_channel (h' ! bw)
           \<and> img_size (h' ! bw) = img_size (h ! r)
           \<and> length (gray_pixels (h' ! bw)) =
               (case h ! r of ImgL sz px \<Rightarrow> length px | ImgRGB sz px \<Rightarrow> length px)
           \<and> (\<forall>v \<in> set (gray_pixels (h' ! bw)). v = 0 \<or> v = 255)"
  using assms
  by (cases "h ! r")
     (auto simp: apply_threshold_eq nth_append threshold_eq point_threshold_lambda
           simp del: point.simps)

theorem apply_threshold_binary_witness:
  "(0::nat) < length [ImgRGB (2, 1) [(10, 20, 30), (200, 210, 220)]]
   \<and> apply_threshold (\<lambda>(r, g, b). g) [ImgRGB (2, 1) [(10, 20, 30), (200, 210, 220)]] 0 128
       = ([ImgRGB (2, 1) [(10, 20, 30), (200, 210, 220)],
           ImgL (2, 1) [20, 210], ImgL (2, 1) [0, 255]], 2)"
  using apply_threshold_binary
    [of 0 "[ImgRGB (2, 1) [(10, 20, 30), (200, 210, 220)]]" "\<lambda>(r, g, b). g" 128]
  by (simp add: apply_threshold_eq threshold_eq)

section \<open>The OCR handlers\<close>

subsection \<open>The engine process has run\<close>

lemma emits_simps [simp]:
  "fs (emits es w) = fs w" "heap (emits es w) = heap w"
  "ui (emits es w) = ui w @ es" "calls (emits es w) = calls w"
  by (simp_all add: emits_def)

lemma logs_simps [simp]:
  "fs (logs cs w) = fs w" "heap (logs cs w) = heap w"
  "ui (logs cs w) = ui w" "calls (logs cs w) = calls w @ cs"
  by (simp_all add: logs_def)






lemma streamlit_cli_empty:
  assumes "run_process env (streamlit_cli_cmd inp outp mp) (fs w) = (Exited 0 out err, fs')"
    and "fs' outp = None"
  shows "streamlit_try_cli env mp img inp outp w =
           w\<lparr>fs := fs',
             ui := ui w @ [St_text ''Attempting to run Kraken CLI...'',
                           St_error [Lit ''Kraken CLI ran but no output file created.''],
                           St_write [out], St_write [err]],
             calls := calls w @ [Subprocess_run (streamlit_cli_cmd inp outp mp)]\<rparr>"
  using assms by (simp add: streamlit_try_cli_def Let_def emits_def logs_def)

lemma app_first_cli_empty:
  assumes "run_process env (app_first_cli_cmd inp outp mp) (fs w) = (Exited 0 out err, fs')"
    and "fs' outp = None"
  shows "app_first_try_cli env env2 mp inp outp w =
           (None, w\<lparr>fs := fs',
             ui := ui w @ [St_text ''Attempting to run Kraken CLI...'',
                           St_error [Lit ''Kraken CLI ran but no output file created.''],
                           St_write [out], St_write [err]],
             calls := calls w @ [Subprocess_run (app_first_cli_cmd inp outp mp)]\<rparr>)"
  using assms by (simp add: app_first_try_cli_def Let_def emits_def logs_def)

lemma app_cli_empty:
  assumes "run_process env (app_cli_cmd inp outp mp) (fs w) = (Exited 0 out err, fs')"
    and "fs' outp = None"
  shows "app_try_cli env mp img inp outp w =
           (None, w\<lparr>fs := fs',
             ui := ui w @ [St_text ''Attempting to run Kraken CLI...'',
                           St_error [Lit ''Kraken CLI ran but did not produce an output file.''],
                           St_write [out], St_write [err]],
             calls := calls w @ [Subprocess_run (app_cli_cmd inp outp mp)]\<rparr>)"
  using assms by (simp add: app_try_cli_def Let_def emits_def logs_def)

lemma streamlit_cli_nonzero:
  assumes "run_process env (streamlit_cli_cmd inp outp mp) (fs w) = (Exited rc out err, fs')"
    and "rc \<noteq> 0"
  shows "streamlit_try_cli env mp img inp outp w =
           w\<lparr>fs := fs',
             ui := ui w @ [St_text ''Attempting to run Kraken CLI...'',
                           St_error [Lit ''Kraken CLI failed: '',
                             StrExn (CalledProcessError (streamlit_cli_cmd inp outp mp) rc out err)],
                           St_write [''STDOUT:'' @ nl, out], St_write [''STDERR:'' @ nl, err]],
             calls := calls w @ [Subprocess_run (streamlit_cli_cmd inp outp mp)]\<rparr>"
  using assms by (simp add: streamlit_try_cli_def Let_def emits_def logs_def)

lemma app_cli_nonzero:
  assumes "run_process env (app_cli_cmd inp outp mp) (fs w) = (Exited rc out err, fs')"
    and "rc \<noteq> 0"
  shows "app_try_cli env mp img inp outp w =
           (None, w\<lparr>fs := fs',
             ui := ui w @ [St_text ''Attempting to run Kraken CLI...'',
                           St_error [Lit ''Kraken CLI failed: '',
                             StrExn (CalledProcessError (app_cli_cmd inp outp mp) rc out err)],
                           St_write [''STDOUT:'' @ nl, out], St_write [''STDERR:'' @ nl, err]],
             calls := calls w @ [Subprocess_run (app_cli_cmd inp outp mp)]\<rparr>)"
  using assms by (simp add: app_try_cli_def Let_def emits_def logs_def)

subsection \<open>Which calls a run makes\<close>

lemma recognize_either_calls:
  "calls (snd (recognize_either env m img w)) =
     calls w @ Rpred_recognize m [img] #
       (case rpred_recognize env m [heap w ! img] of Inl e \<Rightarrow> [Rpred_rpred m [img]] | Inr p \<Rightarrow> [])"
  by (simp add: recognize_either_def split: sum.splits)

lemma read_text_not_missing: "read_text nd \<noteq> Inl (FileNotFoundError m)"
  by (cases nd) simp_all

lemma streamlit_except_no_fallback:
  "\<forall>m. e \<noteq> FileNotFoundError m \<Longrightarrow> calls (streamlit_except env mp img e w) = calls w"
  by (cases e) auto

lemma app_except_no_fallback:
  "\<forall>m. e \<noteq> FileNotFoundError m \<Longrightarrow> calls (snd (app_except env mp img e w)) = calls w"
  by (cases e) auto

lemma subprocess_run_missing:
  "subprocess_run cmd r = Inl (FileNotFoundError m) \<longleftrightarrow> r = ExecNotFound m"
  by (cases r) auto

lemma subprocess_run_other:
  "\<forall>m. r \<noteq> ExecNotFound m \<Longrightarrow> subprocess_run cmd r = Inl e \<Longrightarrow> \<forall>m. e \<noteq> FileNotFoundError m"
  by (cases r) (auto split: if_splits)

lemma read_text_other: "read_text nd = Inl e \<Longrightarrow> \<forall>m. e \<noteq> FileNotFoundError m"
  by (cases nd) auto

lemma streamlit_fallback_only_if_missing:
  assumes "\<forall>m. fst (run_process env (streamlit_cli_cmd inp outp mp) (fs w)) \<noteq> ExecNotFound m"
  shows "calls (streamlit_try_cli env mp img inp outp w) =
           calls w @ [Subprocess_run (streamlit_cli_cmd inp outp mp)]"
proof -
  obtain r fs' where rp: "run_process env (streamlit_cli_cmd inp outp mp) (fs w) = (r, fs')"
    by (cases "run_process env (streamlit_cli_cmd inp outp mp) (fs w)")
  with assms have nm: "\<forall>m. r \<noteq> ExecNotFound m" by simp
  show ?thesis
    using rp subprocess_run_other [OF nm]
    by (auto simp: streamlit_try_cli_def Let_def streamlit_except_no_fallback
          dest: read_text_other split: sum.splits option.splits)
qed

lemma app_fallback_only_if_missing:
  assumes "\<forall>m. fst (run_process env (app_cli_cmd inp outp mp) (fs w)) \<noteq> ExecNotFound m"
  shows "calls (snd (app_try_cli env mp img inp outp w)) =
           calls w @ [Subprocess_run (app_cli_cmd inp outp mp)]"
proof -
  obtain r fs' where rp: "run_process env (app_cli_cmd inp outp mp) (fs w) = (r, fs')"
    by (cases "run_process env (app_cli_cmd inp outp mp) (fs w)")
  with assms have nm: "\<forall>m. r \<noteq> ExecNotFound m" by simp
  show ?thesis
    using rp subprocess_run_other [OF nm]
    by (auto simp: app_try_cli_def Let_def app_except_no_fallback
          dest: read_text_other split: sum.splits option.splits)
qed


subsection \<open>The fallback\<close>

lemma world_after_warning:
  "emits [e2] (logs cs ((emits [e1] w)\<lparr>fs := f\<rparr>)) =
     w\<lparr>fs := f, ui := ui w @ [e1, e2], calls := calls w @ cs\<rparr>"
  by (simp add: emits_def logs_def)

lemma streamlit_missing_runs_fallback:
  assumes "run_process env (streamlit_cli_cmd inp outp mp) (fs w) = (ExecNotFound msg, fs')"
  shows "streamlit_try_cli env mp img inp outp w =
           streamlit_fallback env mp img
             (w\<lparr>fs := fs',
                ui := ui w @ [St_text ''Attempting to run Kraken CLI...'',
                              St_warning cli_not_found_warning],
                calls := calls w @ [Subprocess_run (streamlit_cli_cmd inp outp mp)]\<rparr>)"
  using assms by (simp add: streamlit_try_cli_def Let_def world_after_warning)

lemma app_missing_runs_fallback:
  assumes "run_process env (app_cli_cmd inp outp mp) (fs w) = (ExecNotFound msg, fs')"
  shows "app_try_cli env mp img inp outp w =
           app_fallback env mp img
             (w\<lparr>fs := fs',
                ui := ui w @ [St_text ''Attempting to run Kraken CLI...'',
                              St_warning app_cli_not_found_warning],
                calls := calls w @ [Subprocess_run (app_cli_cmd inp outp mp)]\<rparr>)"
  using assms by (simp add: app_try_cli_def Let_def world_after_warning)

lemma streamlit_fallback_calls:
  "calls (streamlit_fallback env mp img w) =
     calls w @ Import_kraken #
       (case import_kraken env of
          Some e \<Rightarrow> []
        | None \<Rightarrow> Load_any_model mp #
            (case load_any_model env mp of
               Inl e \<Rightarrow> []
             | Inr m \<Rightarrow> Rpred_recognize m [img] #
                 (case rpred_recognize env m [heap w ! img] of
                    Inl e \<Rightarrow> [Rpred_rpred m [img]]
                  | Inr p \<Rightarrow> [])))"
  by (simp add: streamlit_fallback_def streamlit_fallback_failed_def recognize_either_def
        Let_def split: option.splits sum.splits)

lemma app_fallback_calls:
  "calls (snd (app_fallback env mp img w)) =
     calls w @ Import_kraken #
       (case import_kraken env of
          Some e \<Rightarrow> []
        | None \<Rightarrow> Load_any_model mp #
            (case load_any_model env mp of
               Inl e \<Rightarrow> []
             | Inr m \<Rightarrow> Rpred_recognize m [img] #
                 (case rpred_recognize env m [heap w ! img] of
                    Inl e \<Rightarrow> [Rpred_rpred m [img]]
                  | Inr p \<Rightarrow> [])))"
  by (simp add: app_fallback_def app_fallback_failed_def recognize_either_def
        Let_def split: option.splits sum.splits)

lemma streamlit_fallback_first_shape:
  assumes "import_kraken env = None" and "load_any_model env mp = Inr m"
    and "rpred_recognize env m [heap w ! img] = Inr preds"
  shows "streamlit_fallback env mp img w =
           w\<lparr>ui := ui w @ [St_text ''Running Kraken using Python API...'',
                  St_success ''OCR completed via Kraken Python API'',
                  St_text_area ''Recognized text'' (preds_to_text (py_str env) preds) 300],
             calls := calls w @ [Import_kraken, Load_any_model mp, Rpred_recognize m [img]]\<rparr>"
  using assms
  by (simp add: streamlit_fallback_def recognize_either_def Let_def emits_def logs_def)

lemma streamlit_fallback_second_shape:
  assumes "import_kraken env = None" and "load_any_model env mp = Inr m"
    and "rpred_recognize env m [heap w ! img] = Inl e1"
    and "rpred_rpred env m [heap w ! img] = Inr preds"
  shows "streamlit_fallback env mp img w =
           w\<lparr>ui := ui w @ [St_text ''Running Kraken using Python API...'',
                  St_success ''OCR completed via Kraken Python API'',
                  St_text_area ''Recognized text'' (preds_to_text (py_str env) preds) 300],
             calls := calls w @ [Import_kraken, Load_any_model mp, Rpred_recognize m [img],
                  Rpred_rpred m [img]]\<rparr>"
  using assms
  by (simp add: streamlit_fallback_def recognize_either_def Let_def emits_def logs_def)

lemma app_fallback_first_shape:
  assumes "import_kraken env = None" and "load_any_model env mp = Inr m"
    and "rpred_recognize env m [heap w ! img] = Inr preds"
  shows "app_fallback env mp img w =
           (Some (preds_to_text (py_str env) preds),
            w\<lparr>ui := ui w @ [St_text ''Loading model and running Kraken Python API...'',
                  St_success ''OCR completed via Kraken Python API''],
             calls := calls w @ [Import_kraken, Load_any_model mp, Rpred_recognize m [img]]\<rparr>)"
  using assms
  by (simp add: app_fallback_def recognize_either_def Let_def emits_def logs_def)

lemma app_fallback_second_shape:
  assumes "import_kraken env = None" and "load_any_model env mp = Inr m"
    and "rpred_recognize env m [heap w ! img] = Inl e1"
    and "rpred_rpred env m [heap w ! img] = Inr preds"
  shows "app_fallback env mp img w =
           (Some (preds_to_text (py_str env) preds),
            w\<lparr>ui := ui w @ [St_text ''Loading model and running Kraken Python API...'',
                  St_success ''OCR completed via Kraken Python API''],
             calls := calls w @ [Import_kraken, Load_any_model mp, Rpred_recognize m [img],
                  Rpred_rpred m [img]]\<rparr>)"
  using assms
  by (simp add: app_fallback_def recognize_either_def Let_def emits_def logs_def)

lemma streamlit_fallback_both_raise:
  assumes "import_kraken env = None" and "load_any_model env mp = Inr m"
    and "rpred_recognize env m [heap w ! img] = Inl e1"
    and "rpred_rpred env m [heap w ! img] = Inl e2"
  shows "streamlit_fallback env mp img w =
           w\<lparr>ui := ui w @ [St_text ''Running Kraken using Python API...'',
                  St_error [Lit ''Failed to use Kraken Python API: '', StrExn e2],
                  St_info ''Make sure the 'kraken' package is installed (pip install kraken) or the 'kraken' CLI is available in PATH''],
             calls := calls w @ [Import_kraken, Load_any_model mp,
                  Rpred_recognize m [img], Rpred_rpred m [img]]\<rparr>"
  using assms
  by (simp add: streamlit_fallback_def streamlit_fallback_failed_def recognize_either_def
        Let_def emits_def logs_def)

lemma app_fallback_both_raise:
  assumes "import_kraken env = None" and "load_any_model env mp = Inr m"
    and "rpred_recognize env m [heap w ! img] = Inl e1"
    and "rpred_rpred env m [heap w ! img] = Inl e2"
  shows "app_fallback env mp img w =
           (None,
            w\<lparr>ui := ui w @ [St_text ''Loading model and running Kraken Python API...'',
                  St_error [Lit ''Failed to use Kraken Python API: '', StrExn e2],
                  St_info ''Install the 'kraken' package or ensure the 'kraken' CLI is available in PATH.''],
             calls := calls w @ [Import_kraken, Load_any_model mp,
                  Rpred_recognize m [img], Rpred_rpred m [img]]\<rparr>)"
  using assms
  by (simp add: app_fallback_def app_fallback_failed_def recognize_either_def
        Let_def emits_def logs_def)

subsection \<open>What a run does to the file system\<close>

lemma streamlit_fallback_fs: "fs (streamlit_fallback env mp img w) = fs w"
  by (simp add: streamlit_fallback_def streamlit_fallback_failed_def recognize_either_def
        Let_def split: option.splits sum.splits)

lemma app_fallback_fs: "fs (snd (app_fallback env mp img w)) = fs w"
  by (simp add: app_fallback_def app_fallback_failed_def recognize_either_def
        Let_def split: option.splits sum.splits)

lemma streamlit_except_fs: "fs (streamlit_except env mp img e w) = fs w"
  by (cases e) (simp_all add: streamlit_fallback_fs)

lemma app_except_fs: "fs (snd (app_except env mp img e w)) = fs w"
  by (cases e) (simp_all add: app_fallback_fs)

lemma streamlit_try_cli_fs:
  "fs (streamlit_try_cli env mp img inp outp w) =
     snd (run_process env (streamlit_cli_cmd inp outp mp) (fs w))"
  by (simp add: streamlit_try_cli_def Let_def streamlit_except_fs
        split: prod.splits sum.splits option.splits)

lemma app_try_cli_fs:
  "fs (snd (app_try_cli env mp img inp outp w)) =
     snd (run_process env (app_cli_cmd inp outp mp) (fs w))"
  by (simp add: app_try_cli_def Let_def app_except_fs
        split: prod.splits sum.splits option.splits)

lemma streamlit_run_ocr_fs:
  "fs (snd (streamlit_run_ocr env mp img w)) =
     (case mkdtemp env of
        Inl e \<Rightarrow> fs w
      | Inr tmpdir \<Rightarrow>
          (case image_save env (heap w ! img) (os_path_join tmpdir ''input.png'') of
             Some e \<Rightarrow> (fs w)(tmpdir \<mapsto> Dir)
           | None \<Rightarrow>
               snd (run_process env
                 (streamlit_cli_cmd (os_path_join tmpdir ''input.png'')
                    (os_path_join tmpdir ''output.txt'') mp)
                 ((fs w)(tmpdir \<mapsto> Dir,
                         os_path_join tmpdir ''input.png'' \<mapsto> ImageFile (heap w ! img))))))"
  by (simp add: streamlit_run_ocr_def Let_def streamlit_try_cli_fs
        split: sum.splits option.splits)

lemma app_run_ocr_fs:
  "fs (snd (app_run_ocr env mp img w)) =
     (case mkdtemp env of
        Inl e \<Rightarrow> fs w
      | Inr tmpdir \<Rightarrow>
          (case image_save env (heap w ! img) (os_path_join tmpdir ''input_processed.png'') of
             Some e \<Rightarrow> (fs w)(tmpdir \<mapsto> Dir)
           | None \<Rightarrow>
               snd (run_process env
                 (app_cli_cmd (os_path_join tmpdir ''input_processed.png'')
                    (os_path_join tmpdir ''output.txt'') mp)
                 ((fs w)(tmpdir \<mapsto> Dir,
                         os_path_join tmpdir ''input_processed.png'' \<mapsto>
                           ImageFile (heap w ! img))))))"
  by (simp add: app_run_ocr_def Let_def app_try_cli_fs case_prod_beta
        split: sum.splits option.splits)

lemma app_show_result_fs: "fs (app_show_result t w) = fs w"
  by (simp add: app_show_result_def Let_def split: option.splits)

lemma streamlit_run_ocr_fs_grows:
  assumes keep: "\<And>cmd f. dom f \<subseteq> dom (snd (run_process env cmd f))"
  shows "dom (fs w) \<subseteq> dom (fs (snd (streamlit_run_ocr env mp img w)))"
proof (cases "mkdtemp env")
  case (Inl e)
  then show ?thesis by (simp add: streamlit_run_ocr_fs)
next
  case (Inr tmpdir)
  show ?thesis
  proof (cases "image_save env (heap w ! img) (os_path_join tmpdir ''input.png'')")
    case (Some e)
    with Inr show ?thesis by (auto simp: streamlit_run_ocr_fs)
  next
    case None
    have "dom (fs w) \<subseteq> dom ((fs w)(tmpdir \<mapsto> Dir,
            os_path_join tmpdir ''input.png'' \<mapsto> ImageFile (heap w ! img)))"
      by auto
    also have "\<dots> \<subseteq> dom (snd (run_process env
                 (streamlit_cli_cmd (os_path_join tmpdir ''input.png'')
                    (os_path_join tmpdir ''output.txt'') mp)
                 ((fs w)(tmpdir \<mapsto> Dir,
                         os_path_join tmpdir ''input.png'' \<mapsto> ImageFile (heap w ! img)))))"
      by (rule keep)
    finally show ?thesis using Inr None by (simp add: streamlit_run_ocr_fs)
  qed
qed

lemma app_run_ocr_fs_grows:
  assumes keep: "\<And>cmd f. dom f \<subseteq> dom (snd (run_process env cmd f))"
  shows "dom (fs w) \<subseteq> dom (fs (snd (app_run_ocr env mp img w)))"
proof (cases "mkdtemp env")
  case (Inl e)
  then show ?thesis by (simp add: app_run_ocr_fs)
next
  case (Inr tmpdir)
  show ?thesis
  proof (cases "image_save env (heap w ! img) (os_path_join tmpdir ''input_processed.png'')")
    case (Some e)
    with Inr show ?thesis by (auto simp: app_run_ocr_fs)
  next
    case None
    have "dom (fs w) \<subseteq> dom ((fs w)(tmpdir \<mapsto> Dir,
            os_path_join tmpdir ''input_processed.png'' \<mapsto> ImageFile (heap w ! img)))"
      by auto
    also have "\<dots> \<subseteq> dom (snd (run_process env
                 (app_cli_cmd (os_path_join tmpdir ''input_processed.png'')
                    (os_path_join tmpdir ''output.txt'') mp)
                 ((fs w)(tmpdir \<mapsto> Dir,
                         os_path_join tmpdir ''input_processed.png'' \<mapsto>
                           ImageFile (heap w ! img)))))"
      by (rule keep)
    finally show ?thesis using Inr None by (simp add: app_run_ocr_fs)
  qed
qed

lemma app_run_ocr_fs_grows_dest:
  assumes keep: "\<And>cmd f. dom f \<subseteq> dom (snd (run_process env cmd f))"
    and run: "app_run_ocr env mp img w = (r, w')"
  shows "dom (fs w) \<subseteq> dom (fs w')"
  using app_run_ocr_fs_grows [OF keep, of w mp img] run by simp

lemma app_second_fs_grows:
  assumes keep: "\<And>cmd f. dom f \<subseteq> dom (snd (run_process env cmd f))"
  shows "dom (fs w) \<subseteq> dom (fs (snd (app_second env w)))"
  unfolding app_second_def Let_def
  by (auto simp: app_show_result_fs apply_threshold_eq alloc_def
        split: option.splits sum.splits prod.splits
        dest!: app_run_ocr_fs_grows_dest [OF keep];
      blast)

subsection \<open>Outcomes of the engine process\<close>






text \<open>
  C2. When the external process exits with status zero but the expected output file
  does not exist, the handler reports the failure that the engine ran without
  producing an output file, followed by the captured standard output and standard
  error whatever they contain, and makes no call of the fallback path: the only call
  of the run is that of the process.
\<close>

theorem cli_without_output_file_reports_failure:
  "(run_process env (streamlit_cli_cmd inp outp mp) (fs w) = (Exited 0 out err, fs')
      \<and> fs' outp = None \<longrightarrow>
    streamlit_try_cli env mp img inp outp w =
      w\<lparr>fs := fs',
        ui := ui w @ [St_text ''Attempting to run Kraken CLI...'',
                      St_error [Lit ''Kraken CLI ran but no output file created.''],
                      St_write [out], St_write [err]],
        calls := calls w @ [Subprocess_run (streamlit_cli_cmd inp outp mp)]\<rparr>)
   \<and> (run_process env (app_first_cli_cmd inp outp mp) (fs w) = (Exited 0 out err, fs')
      \<and> fs' outp = None \<longrightarrow>
    app_first_try_cli env env2 mp inp outp w =
      (None,
       w\<lparr>fs := fs',
         ui := ui w @ [St_text ''Attempting to run Kraken CLI...'',
                       St_error [Lit ''Kraken CLI ran but no output file created.''],
                       St_write [out], St_write [err]],
         calls := calls w @ [Subprocess_run (app_first_cli_cmd inp outp mp)]\<rparr>))
   \<and> (run_process env (app_cli_cmd inp outp mp) (fs w) = (Exited 0 out err, fs')
      \<and> fs' outp = None \<longrightarrow>
    app_try_cli env mp img inp outp w =
      (None,
       w\<lparr>fs := fs',
         ui := ui w @ [St_text ''Attempting to run Kraken CLI...'',
                       St_error [Lit ''Kraken CLI ran but did not produce an output file.''],
                       St_write [out], St_write [err]],
         calls := calls w @ [Subprocess_run (app_cli_cmd inp outp mp)]\<rparr>))"
  using streamlit_cli_empty [of env inp outp mp w out err fs' img]
    app_first_cli_empty [of env inp outp mp w out err fs' env2]
    app_cli_empty [of env inp outp mp w out err fs' img]
  by blast

theorem cli_without_output_file_reports_failure_witness:
  "run_process (demo_env\<lparr>run_process := \<lambda>cmd f. (Exited 0 ''so'' ''se'', f)\<rparr>)
     (streamlit_cli_cmd ''/tmp/tmpk/input.png'' ''/tmp/tmpk/output.txt'' ''m'') (fs demo_world)
     = (Exited 0 ''so'' ''se'', Map.empty)
   \<and> streamlit_try_cli (demo_env\<lparr>run_process := \<lambda>cmd f. (Exited 0 ''so'' ''se'', f)\<rparr>)
       ''m'' 0 ''/tmp/tmpk/input.png'' ''/tmp/tmpk/output.txt'' demo_world
     = demo_world
        \<lparr>ui := [St_text ''Attempting to run Kraken CLI...'',
                St_error [Lit ''Kraken CLI ran but no output file created.''],
                St_write [''so''], St_write [''se'']],
         calls := [Subprocess_run [''kraken'', ''-i'', ''/tmp/tmpk/input.png'',
                     ''/tmp/tmpk/output.txt'', ''ocr'', ''-m'', ''m'', ''--threads'', ''1'']]\<rparr>
   \<and> ui (snd (app_first_try_cli (demo_env\<lparr>run_process := \<lambda>cmd f. (Exited 0 ''so'' ''se'', f)\<rparr>)
       demo_env ''m'' ''/tmp/tmpk/input.png'' ''/tmp/tmpk/output.txt'' demo_world))
     = [St_text ''Attempting to run Kraken CLI...'',
                St_error [Lit ''Kraken CLI ran but no output file created.''],
                St_write [''so''], St_write [''se'']]
   \<and> calls (snd (app_try_cli (demo_env\<lparr>run_process := \<lambda>cmd f. (Exited 0 ''so'' ''se'', f)\<rparr>)
       ''m'' 0 ''/tmp/tmpk/input_processed.png'' ''/tmp/tmpk/output.txt'' demo_world))
     = [Subprocess_run [''kraken'', ''-i'', ''/tmp/tmpk/input_processed.png'',
          ''/tmp/tmpk/output.txt'', ''binarize'', ''segment'', ''ocr'', ''-m'', ''m'']]"
  using cli_without_output_file_reports_failure
    [of "demo_env\<lparr>run_process := \<lambda>cmd f. (Exited 0 ''so'' ''se'', f)\<rparr>"
        "''/tmp/tmpk/input.png''" "''/tmp/tmpk/output.txt''" "''m''" demo_world
        "''so''" "''se''" Map.empty 0 demo_env]
    cli_without_output_file_reports_failure
    [of "demo_env\<lparr>run_process := \<lambda>cmd f. (Exited 0 ''so'' ''se'', f)\<rparr>"
        "''/tmp/tmpk/input_processed.png''" "''/tmp/tmpk/output.txt''" "''m''" demo_world
        "''so''" "''se''" Map.empty 0 demo_env]
  by (simp add: demo_env_def demo_world_def streamlit_cli_cmd_def app_cli_cmd_def)

text \<open>
  C3. When the external process exits with a non-zero status, the handler reports a
  failure carrying the captured standard output and standard error and makes no call
  of the fallback path; and whenever the process run ends in anything but the
  missing-executable condition, the only call of the run is that of the process, so
  the fallback is triggered by the missing executable alone.
\<close>

theorem cli_nonzero_exit_reports_failure:
  "(run_process env (streamlit_cli_cmd inp outp mp) (fs w) = (Exited rc out err, fs')
      \<and> rc \<noteq> 0 \<longrightarrow>
    streamlit_try_cli env mp img inp outp w =
      w\<lparr>fs := fs',
        ui := ui w @ [St_text ''Attempting to run Kraken CLI...'',
                      St_error [Lit ''Kraken CLI failed: '',
                        StrExn (CalledProcessError (streamlit_cli_cmd inp outp mp) rc out err)],
                      St_write [''STDOUT:'' @ nl, out], St_write [''STDERR:'' @ nl, err]],
        calls := calls w @ [Subprocess_run (streamlit_cli_cmd inp outp mp)]\<rparr>)
   \<and> (run_process env (app_cli_cmd inp outp mp) (fs w) = (Exited rc out err, fs')
      \<and> rc \<noteq> 0 \<longrightarrow>
    app_try_cli env mp img inp outp w =
      (None,
       w\<lparr>fs := fs',
         ui := ui w @ [St_text ''Attempting to run Kraken CLI...'',
                       St_error [Lit ''Kraken CLI failed: '',
                         StrExn (CalledProcessError (app_cli_cmd inp outp mp) rc out err)],
                       St_write [''STDOUT:'' @ nl, out], St_write [''STDERR:'' @ nl, err]],
         calls := calls w @ [Subprocess_run (app_cli_cmd inp outp mp)]\<rparr>))
   \<and> ((\<forall>m. fst (run_process env (streamlit_cli_cmd inp outp mp) (fs w)) \<noteq> ExecNotFound m) \<longrightarrow>
        calls (streamlit_try_cli env mp img inp outp w) =
          calls w @ [Subprocess_run (streamlit_cli_cmd inp outp mp)])
   \<and> ((\<forall>m. fst (run_process env (app_cli_cmd inp outp mp) (fs w)) \<noteq> ExecNotFound m) \<longrightarrow>
        calls (snd (app_try_cli env mp img inp outp w)) =
          calls w @ [Subprocess_run (app_cli_cmd inp outp mp)])"
  using streamlit_cli_nonzero [of env inp outp mp w rc out err fs' img]
    app_cli_nonzero [of env inp outp mp w rc out err fs' img]
    streamlit_fallback_only_if_missing [of env inp outp mp w img]
    app_fallback_only_if_missing [of env inp outp mp w img]
  by blast

theorem cli_nonzero_exit_reports_failure_witness:
  "run_process (demo_env\<lparr>run_process := \<lambda>cmd f. (Exited 2 ''so'' ''se'', f)\<rparr>)
     (streamlit_cli_cmd ''/tmp/tmpk/input.png'' ''/tmp/tmpk/output.txt'' ''m'') (fs demo_world)
     = (Exited 2 ''so'' ''se'', Map.empty)
   \<and> (2 :: int) \<noteq> 0
   \<and> streamlit_try_cli (demo_env\<lparr>run_process := \<lambda>cmd f. (Exited 2 ''so'' ''se'', f)\<rparr>)
       ''m'' 0 ''/tmp/tmpk/input.png'' ''/tmp/tmpk/output.txt'' demo_world
     = demo_world
        \<lparr>ui := [St_text ''Attempting to run Kraken CLI...'',
                St_error [Lit ''Kraken CLI failed: '',
                  StrExn (CalledProcessError [''kraken'', ''-i'', ''/tmp/tmpk/input.png'',
                     ''/tmp/tmpk/output.txt'', ''ocr'', ''-m'', ''m'', ''--threads'', ''1''] 2 ''so'' ''se'')],
                St_write [''STDOUT:'' @ nl, ''so''], St_write [''STDERR:'' @ nl, ''se'']],
         calls := [Subprocess_run [''kraken'', ''-i'', ''/tmp/tmpk/input.png'',
                     ''/tmp/tmpk/output.txt'', ''ocr'', ''-m'', ''m'', ''--threads'', ''1'']]\<rparr>
   \<and> calls (snd (app_try_cli (demo_env\<lparr>run_process := \<lambda>cmd f. (Exited 2 ''so'' ''se'', f)\<rparr>)
       ''m'' 0 ''/tmp/tmpk/input_processed.png'' ''/tmp/tmpk/output.txt'' demo_world))
     = [Subprocess_run [''kraken'', ''-i'', ''/tmp/tmpk/input_processed.png'',
          ''/tmp/tmpk/output.txt'', ''binarize'', ''segment'', ''ocr'', ''-m'', ''m'']]"
  using cli_nonzero_exit_reports_failure
    [of "demo_env\<lparr>run_process := \<lambda>cmd f. (Exited 2 ''so'' ''se'', f)\<rparr>"
        "''/tmp/tmpk/input.png''" "''/tmp/tmpk/output.txt''" "''m''" demo_world
        2 "''so''" "''se''" Map.empty 0]
    cli_nonzero_exit_reports_failure
    [of "demo_env\<lparr>run_process := \<lambda>cmd f. (Exited 2 ''so'' ''se'', f)\<rparr>"
        "''/tmp/tmpk/input_processed.png''" "''/tmp/tmpk/output.txt''" "''m''" demo_world
        2 "''so''" "''se''" Map.empty 0]
  by (simp add: demo_env_def demo_world_def streamlit_cli_cmd_def app_cli_cmd_def)


subsection \<open>The executable is missing\<close>

lemma streamlit_missing_calls:
  assumes "run_process env (streamlit_cli_cmd inp outp mp) (fs w) = (ExecNotFound msg, fs')"
  shows "calls (streamlit_try_cli env mp img inp outp w) =
     calls w @ [Subprocess_run (streamlit_cli_cmd inp outp mp), Import_kraken] @
       (case import_kraken env of
          Some e \<Rightarrow> []
        | None \<Rightarrow> Load_any_model mp #
            (case load_any_model env mp of
               Inl e \<Rightarrow> []
             | Inr m \<Rightarrow> Rpred_recognize m [img] #
                 (case rpred_recognize env m [heap w ! img] of
                    Inl e \<Rightarrow> [Rpred_rpred m [img]]
                  | Inr p \<Rightarrow> [])))"
  by (simp add: streamlit_missing_runs_fallback [OF assms] streamlit_fallback_calls
        split: option.splits sum.splits)

lemma app_missing_calls:
  assumes "run_process env (app_cli_cmd inp outp mp) (fs w) = (ExecNotFound msg, fs')"
  shows "calls (snd (app_try_cli env mp img inp outp w)) =
     calls w @ [Subprocess_run (app_cli_cmd inp outp mp), Import_kraken] @
       (case import_kraken env of
          Some e \<Rightarrow> []
        | None \<Rightarrow> Load_any_model mp #
            (case load_any_model env mp of
               Inl e \<Rightarrow> []
             | Inr m \<Rightarrow> Rpred_recognize m [img] #
                 (case rpred_recognize env m [heap w ! img] of
                    Inl e \<Rightarrow> [Rpred_rpred m [img]]
                  | Inr p \<Rightarrow> [])))"
  by (simp add: app_missing_runs_fallback [OF assms] app_fallback_calls
        split: option.splits sum.splits)

lemma streamlit_missing_shows_text:
  assumes "run_process env (streamlit_cli_cmd inp outp mp) (fs w) = (ExecNotFound msg, fs')"
    and "import_kraken env = None" and "load_any_model env mp = Inr m"
    and "rpred_recognize env m [heap w ! img] = Inr preds
         \<or> (\<exists>e. rpred_recognize env m [heap w ! img] = Inl e)
            \<and> rpred_rpred env m [heap w ! img] = Inr preds"
  shows "ui (streamlit_try_cli env mp img inp outp w) =
           ui w @ [St_text ''Attempting to run Kraken CLI...'',
                   St_warning cli_not_found_warning,
                   St_text ''Running Kraken using Python API...'',
                   St_success ''OCR completed via Kraken Python API'',
                   St_text_area ''Recognized text'' (preds_to_text (py_str env) preds) 300]"
  using assms(4)
proof (elim disjE conjE exE)
  assume "rpred_recognize env m [heap w ! img] = Inr preds"
  then show ?thesis
    by (simp add: streamlit_missing_runs_fallback [OF assms(1)]
          streamlit_fallback_first_shape [OF assms(2,3)])
next
  fix e
  assume "rpred_recognize env m [heap w ! img] = Inl e"
    and "rpred_rpred env m [heap w ! img] = Inr preds"
  then show ?thesis
    by (simp add: streamlit_missing_runs_fallback [OF assms(1)]
          streamlit_fallback_second_shape [OF assms(2,3)])
qed

lemma app_missing_returns_text:
  assumes "run_process env (app_cli_cmd inp outp mp) (fs w) = (ExecNotFound msg, fs')"
    and "import_kraken env = None" and "load_any_model env mp = Inr m"
    and "rpred_recognize env m [heap w ! img] = Inr preds
         \<or> (\<exists>e. rpred_recognize env m [heap w ! img] = Inl e)
            \<and> rpred_rpred env m [heap w ! img] = Inr preds"
  shows "fst (app_try_cli env mp img inp outp w) = Some (preds_to_text (py_str env) preds)
         \<and> ui (snd (app_try_cli env mp img inp outp w)) =
           ui w @ [St_text ''Attempting to run Kraken CLI...'',
                   St_warning app_cli_not_found_warning,
                   St_text ''Loading model and running Kraken Python API...'',
                   St_success ''OCR completed via Kraken Python API'']"
  using assms(4)
proof (elim disjE conjE exE)
  assume "rpred_recognize env m [heap w ! img] = Inr preds"
  then show ?thesis
    by (simp add: app_missing_runs_fallback [OF assms(1)]
          app_fallback_first_shape [OF assms(2,3)])
next
  fix e
  assume "rpred_recognize env m [heap w ! img] = Inl e"
    and "rpred_rpred env m [heap w ! img] = Inr preds"
  then show ?thesis
    by (simp add: app_missing_runs_fallback [OF assms(1)]
          app_fallback_second_shape [OF assms(2,3)])
qed

lemma streamlit_missing_import_fails:
  assumes "run_process env (streamlit_cli_cmd inp outp mp) (fs w) = (ExecNotFound msg, fs')"
    and "import_kraken env = Some e"
  shows "streamlit_try_cli env mp img inp outp w =
           w\<lparr>fs := fs',
             ui := ui w @ [St_text ''Attempting to run Kraken CLI...'',
                  St_warning cli_not_found_warning,
                  St_error [Lit ''Failed to use Kraken Python API: '', StrExn e],
                  St_info ''Make sure the 'kraken' package is installed (pip install kraken) or the 'kraken' CLI is available in PATH''],
             calls := calls w @ [Subprocess_run (streamlit_cli_cmd inp outp mp),
                  Import_kraken]\<rparr>"
  using assms(2)
  by (simp add: streamlit_missing_runs_fallback [OF assms(1)] streamlit_fallback_def
        streamlit_fallback_failed_def emits_def logs_def)

lemma streamlit_missing_load_fails:
  assumes "run_process env (streamlit_cli_cmd inp outp mp) (fs w) = (ExecNotFound msg, fs')"
    and "import_kraken env = None" and "load_any_model env mp = Inl e"
  shows "streamlit_try_cli env mp img inp outp w =
           w\<lparr>fs := fs',
             ui := ui w @ [St_text ''Attempting to run Kraken CLI...'',
                  St_warning cli_not_found_warning,
                  St_text ''Running Kraken using Python API...'',
                  St_error [Lit ''Failed to use Kraken Python API: '', StrExn e],
                  St_info ''Make sure the 'kraken' package is installed (pip install kraken) or the 'kraken' CLI is available in PATH''],
             calls := calls w @ [Subprocess_run (streamlit_cli_cmd inp outp mp),
                  Import_kraken, Load_any_model mp]\<rparr>"
  using assms(2,3)
  by (simp add: streamlit_missing_runs_fallback [OF assms(1)] streamlit_fallback_def
        streamlit_fallback_failed_def Let_def emits_def logs_def)

lemma app_missing_import_fails:
  assumes "run_process env (app_cli_cmd inp outp mp) (fs w) = (ExecNotFound msg, fs')"
    and "import_kraken env = Some e"
  shows "app_try_cli env mp img inp outp w =
           (None,
            w\<lparr>fs := fs',
              ui := ui w @ [St_text ''Attempting to run Kraken CLI...'',
                   St_warning app_cli_not_found_warning,
                   St_error [Lit ''Failed to use Kraken Python API: '', StrExn e],
                   St_info ''Install the 'kraken' package or ensure the 'kraken' CLI is available in PATH.''],
              calls := calls w @ [Subprocess_run (app_cli_cmd inp outp mp),
                   Import_kraken]\<rparr>)"
  using assms(2)
  by (simp add: app_missing_runs_fallback [OF assms(1)] app_fallback_def
        app_fallback_failed_def emits_def logs_def)

lemma app_missing_load_fails:
  assumes "run_process env (app_cli_cmd inp outp mp) (fs w) = (ExecNotFound msg, fs')"
    and "import_kraken env = None" and "load_any_model env mp = Inl e"
  shows "app_try_cli env mp img inp outp w =
           (None,
            w\<lparr>fs := fs',
              ui := ui w @ [St_text ''Attempting to run Kraken CLI...'',
                   St_warning app_cli_not_found_warning,
                   St_text ''Loading model and running Kraken Python API...'',
                   St_error [Lit ''Failed to use Kraken Python API: '', StrExn e],
                   St_info ''Install the 'kraken' package or ensure the 'kraken' CLI is available in PATH.''],
              calls := calls w @ [Subprocess_run (app_cli_cmd inp outp mp),
                   Import_kraken, Load_any_model mp]\<rparr>)"
  using assms(2,3)
  by (simp add: app_missing_runs_fallback [OF assms(1)] app_fallback_def
        app_fallback_failed_def Let_def emits_def logs_def)

lemma streamlit_missing_both_raise:
  assumes "run_process env (streamlit_cli_cmd inp outp mp) (fs w) = (ExecNotFound msg, fs')"
    and "import_kraken env = None" and "load_any_model env mp = Inr m"
    and "rpred_recognize env m [heap w ! img] = Inl e1"
    and "rpred_rpred env m [heap w ! img] = Inl e2"
  shows "streamlit_try_cli env mp img inp outp w =
           w\<lparr>fs := fs',
             ui := ui w @ [St_text ''Attempting to run Kraken CLI...'',
                  St_warning cli_not_found_warning,
                  St_text ''Running Kraken using Python API...'',
                  St_error [Lit ''Failed to use Kraken Python API: '', StrExn e2],
                  St_info ''Make sure the 'kraken' package is installed (pip install kraken) or the 'kraken' CLI is available in PATH''],
             calls := calls w @ [Subprocess_run (streamlit_cli_cmd inp outp mp),
                  Import_kraken, Load_any_model mp,
                  Rpred_recognize m [img], Rpred_rpred m [img]]\<rparr>"
  using assms(4,5)
  by (simp add: streamlit_missing_runs_fallback [OF assms(1)]
        streamlit_fallback_both_raise [OF assms(2,3)])

lemma app_missing_both_raise:
  assumes "run_process env (app_cli_cmd inp outp mp) (fs w) = (ExecNotFound msg, fs')"
    and "import_kraken env = None" and "load_any_model env mp = Inr m"
    and "rpred_recognize env m [heap w ! img] = Inl e1"
    and "rpred_rpred env m [heap w ! img] = Inl e2"
  shows "app_try_cli env mp img inp outp w =
           (None,
            w\<lparr>fs := fs',
             ui := ui w @ [St_text ''Attempting to run Kraken CLI...'',
                  St_warning app_cli_not_found_warning,
                  St_text ''Loading model and running Kraken Python API...'',
                  St_error [Lit ''Failed to use Kraken Python API: '', StrExn e2],
                  St_info ''Install the 'kraken' package or ensure the 'kraken' CLI is available in PATH.''],
             calls := calls w @ [Subprocess_run (app_cli_cmd inp outp mp),
                  Import_kraken, Load_any_model mp,
                  Rpred_recognize m [img], Rpred_rpred m [img]]\<rparr>)"
  using assms(4,5)
  by (simp add: app_missing_runs_fallback [OF assms(1)]
        app_fallback_both_raise [OF assms(2,3)])


text \<open>
  C4 as stated fails where the executable is missing and the engine package cannot be
  imported: the fallback attempt ends in its failure report and the image is passed to
  neither call shape. It also fails for a returned sequence that is not a \<open>list\<close>: a
  tuple of two results is shown in its own string form, not joined with a newline.
\<close>

theorem missing_cli_always_reaches_recognize_counterexample:
  "fst (run_process demo_env_no_package
          (streamlit_cli_cmd ''/tmp/tmpk/input.png'' ''/tmp/tmpk/output.txt'' ''m'')
          (fs demo_world)) = ExecNotFound ''kraken''
   \<and> streamlit_try_cli demo_env_no_package ''m'' 0 ''/tmp/tmpk/input.png''
         ''/tmp/tmpk/output.txt'' demo_world
     = demo_world
        \<lparr>ui := [St_text ''Attempting to run Kraken CLI...'',
                St_warning cli_not_found_warning,
                St_error [Lit ''Failed to use Kraken Python API: '',
                          StrExn (PyException ''No module named kraken'')],
                St_info ''Make sure the 'kraken' package is installed (pip install kraken) or the 'kraken' CLI is available in PATH''],
         calls := [Subprocess_run (streamlit_cli_cmd ''/tmp/tmpk/input.png''
                     ''/tmp/tmpk/output.txt'' ''m''), Import_kraken]\<rparr>
   \<and> rpred_recognize demo_env_tuple (Model 0) [heap demo_world ! 0]
       = Inr (PyTuple [PyObj 0, PyObj 1])
   \<and> ui (streamlit_try_cli demo_env_tuple ''m'' 0 ''/tmp/tmpk/input.png''
         ''/tmp/tmpk/output.txt'' demo_world)
     = [St_text ''Attempting to run Kraken CLI...'',
        St_warning cli_not_found_warning,
        St_text ''Running Kraken using Python API...'',
        St_success ''OCR completed via Kraken Python API'',
        St_text_area ''Recognized text'' ''(shalom, olam)'' 300]
   \<and> ''(shalom, olam)'' \<noteq> ''shalom'' @ nl @ ''olam''"
  by (simp add: demo_env_tuple_def demo_env_no_package_def demo_env_missing_cli_def
        demo_env_def demo_world_def streamlit_try_cli_def streamlit_fallback_def
        streamlit_fallback_failed_def recognize_either_def emits_def logs_def nl_def)

text \<open>
  C4, amended. When the executable cannot be located, exactly one fallback attempt is
  made: the engine package is imported and the model is loaded, and if either step
  raises, the attempt ends in the fallback failure (the error with the message of that
  exception and the guidance, no recognized text) without any recognition call;
  otherwise the image is passed as a single-element list first to \<open>rpred.recognize\<close>,
  and \<open>rpred.rpred\<close> is called, with the same arguments, if and only if
  \<open>rpred.recognize\<close> raised. A result returned by either call is normalised to text by
  joining the string forms of its elements with newlines when it is a list, and by
  taking its string form otherwise.
\<close>

theorem fallback_tries_recognize_then_rpred:
  "(run_process env (streamlit_cli_cmd inp outp mp) (fs w) = (ExecNotFound msg, fs') \<longrightarrow>
      calls (streamlit_try_cli env mp img inp outp w) =
        calls w @ [Subprocess_run (streamlit_cli_cmd inp outp mp), Import_kraken] @
          (case import_kraken env of
             Some e \<Rightarrow> []
           | None \<Rightarrow> Load_any_model mp #
               (case load_any_model env mp of
                  Inl e \<Rightarrow> []
                | Inr m \<Rightarrow> Rpred_recognize m [img] #
                    (case rpred_recognize env m [heap w ! img] of
                       Inl e \<Rightarrow> [Rpred_rpred m [img]]
                     | Inr p \<Rightarrow> [])))
      \<and> (import_kraken env = None \<and> load_any_model env mp = Inr m
           \<and> (rpred_recognize env m [heap w ! img] = Inr preds
                \<or> (\<exists>e. rpred_recognize env m [heap w ! img] = Inl e)
                   \<and> rpred_rpred env m [heap w ! img] = Inr preds) \<longrightarrow>
          ui (streamlit_try_cli env mp img inp outp w) =
            ui w @ [St_text ''Attempting to run Kraken CLI...'',
                    St_warning cli_not_found_warning,
                    St_text ''Running Kraken using Python API...'',
                    St_success ''OCR completed via Kraken Python API'',
                    St_text_area ''Recognized text'' (preds_to_text (py_str env) preds) 300])
      \<and> (import_kraken env = Some ei \<longrightarrow>
          streamlit_try_cli env mp img inp outp w =
            w\<lparr>fs := fs',
              ui := ui w @ [St_text ''Attempting to run Kraken CLI...'',
                   St_warning cli_not_found_warning,
                   St_error [Lit ''Failed to use Kraken Python API: '', StrExn ei],
                   St_info ''Make sure the 'kraken' package is installed (pip install kraken) or the 'kraken' CLI is available in PATH''],
              calls := calls w @ [Subprocess_run (streamlit_cli_cmd inp outp mp),
                   Import_kraken]\<rparr>)
      \<and> (import_kraken env = None \<and> load_any_model env mp = Inl el \<longrightarrow>
          streamlit_try_cli env mp img inp outp w =
            w\<lparr>fs := fs',
              ui := ui w @ [St_text ''Attempting to run Kraken CLI...'',
                   St_warning cli_not_found_warning,
                   St_text ''Running Kraken using Python API...'',
                   St_error [Lit ''Failed to use Kraken Python API: '', StrExn el],
                   St_info ''Make sure the 'kraken' package is installed (pip install kraken) or the 'kraken' CLI is available in PATH''],
              calls := calls w @ [Subprocess_run (streamlit_cli_cmd inp outp mp),
                   Import_kraken, Load_any_model mp]\<rparr>))
   \<and> (run_process env (app_cli_cmd inp outp mp) (fs w) = (ExecNotFound msg, fs') \<longrightarrow>
      calls (snd (app_try_cli env mp img inp outp w)) =
        calls w @ [Subprocess_run (app_cli_cmd inp outp mp), Import_kraken] @
          (case import_kraken env of
             Some e \<Rightarrow> []
           | None \<Rightarrow> Load_any_model mp #
               (case load_any_model env mp of
                  Inl e \<Rightarrow> []
                | Inr m \<Rightarrow> Rpred_recognize m [img] #
                    (case rpred_recognize env m [heap w ! img] of
                       Inl e \<Rightarrow> [Rpred_rpred m [img]]
                     | Inr p \<Rightarrow> [])))
      \<and> (import_kraken env = None \<and> load_any_model env mp = Inr m
           \<and> (rpred_recognize env m [heap w ! img] = Inr preds
                \<or> (\<exists>e. rpred_recognize env m [heap w ! img] = Inl e)
                   \<and> rpred_rpred env m [heap w ! img] = Inr preds) \<longrightarrow>
          fst (app_try_cli env mp img inp outp w) = Some (preds_to_text (py_str env) preds)
          \<and> ui (snd (app_try_cli env mp img inp outp w)) =
            ui w @ [St_text ''Attempting to run Kraken CLI...'',
                    St_warning app_cli_not_found_warning,
                    St_text ''Loading model and running Kraken Python API...'',
                    St_success ''OCR completed via Kraken Python API''])
      \<and> (import_kraken env = Some ei \<longrightarrow>
          app_try_cli env mp img inp outp w =
            (None,
             w\<lparr>fs := fs',
               ui := ui w @ [St_text ''Attempting to run Kraken CLI...'',
                    St_warning app_cli_not_found_warning,
                    St_error [Lit ''Failed to use Kraken Python API: '', StrExn ei],
                    St_info ''Install the 'kraken' package or ensure the 'kraken' CLI is available in PATH.''],
               calls := calls w @ [Subprocess_run (app_cli_cmd inp outp mp),
                    Import_kraken]\<rparr>))
      \<and> (import_kraken env = None \<and> load_any_model env mp = Inl el \<longrightarrow>
          app_try_cli env mp img inp outp w =
            (None,
             w\<lparr>fs := fs',
               ui := ui w @ [St_text ''Attempting to run Kraken CLI...'',
                    St_warning app_cli_not_found_warning,
                    St_text ''Loading model and running Kraken Python API...'',
                    St_error [Lit ''Failed to use Kraken Python API: '', StrExn el],
                    St_info ''Install the 'kraken' package or ensure the 'kraken' CLI is available in PATH.''],
               calls := calls w @ [Subprocess_run (app_cli_cmd inp outp mp),
                    Import_kraken, Load_any_model mp]\<rparr>)))
   \<and> preds_to_text str (PyList ps) = str_join nl (map str ps)
   \<and> preds_to_text str (PyTuple ps) = str (PyTuple ps)
   \<and> preds_to_text str (PyObj n) = str (PyObj n)"
proof (intro conjI impI)
  assume nf: "run_process env (streamlit_cli_cmd inp outp mp) (fs w) = (ExecNotFound msg, fs')"
  show "calls (streamlit_try_cli env mp img inp outp w) =
        calls w @ [Subprocess_run (streamlit_cli_cmd inp outp mp), Import_kraken] @
          (case import_kraken env of
             Some e \<Rightarrow> []
           | None \<Rightarrow> Load_any_model mp #
               (case load_any_model env mp of
                  Inl e \<Rightarrow> []
                | Inr m \<Rightarrow> Rpred_recognize m [img] #
                    (case rpred_recognize env m [heap w ! img] of
                       Inl e \<Rightarrow> [Rpred_rpred m [img]]
                     | Inr p \<Rightarrow> [])))"
    by (rule streamlit_missing_calls [OF nf])
  {
    assume "import_kraken env = None \<and> load_any_model env mp = Inr m
           \<and> (rpred_recognize env m [heap w ! img] = Inr preds
                \<or> (\<exists>e. rpred_recognize env m [heap w ! img] = Inl e)
                   \<and> rpred_rpred env m [heap w ! img] = Inr preds)"
    then show "ui (streamlit_try_cli env mp img inp outp w) =
            ui w @ [St_text ''Attempting to run Kraken CLI...'',
                    St_warning cli_not_found_warning,
                    St_text ''Running Kraken using Python API...'',
                    St_success ''OCR completed via Kraken Python API'',
                    St_text_area ''Recognized text'' (preds_to_text (py_str env) preds) 300]"
      using streamlit_missing_shows_text [OF nf, of m img preds] by blast
  }
  {
    assume "import_kraken env = Some ei"
    then show "streamlit_try_cli env mp img inp outp w =
            w\<lparr>fs := fs',
              ui := ui w @ [St_text ''Attempting to run Kraken CLI...'',
                   St_warning cli_not_found_warning,
                   St_error [Lit ''Failed to use Kraken Python API: '', StrExn ei],
                   St_info ''Make sure the 'kraken' package is installed (pip install kraken) or the 'kraken' CLI is available in PATH''],
              calls := calls w @ [Subprocess_run (streamlit_cli_cmd inp outp mp),
                   Import_kraken]\<rparr>"
      by (rule streamlit_missing_import_fails [OF nf])
  }
  {
    assume "import_kraken env = None \<and> load_any_model env mp = Inl el"
    then show "streamlit_try_cli env mp img inp outp w =
            w\<lparr>fs := fs',
              ui := ui w @ [St_text ''Attempting to run Kraken CLI...'',
                   St_warning cli_not_found_warning,
                   St_text ''Running Kraken using Python API...'',
                   St_error [Lit ''Failed to use Kraken Python API: '', StrExn el],
                   St_info ''Make sure the 'kraken' package is installed (pip install kraken) or the 'kraken' CLI is available in PATH''],
              calls := calls w @ [Subprocess_run (streamlit_cli_cmd inp outp mp),
                   Import_kraken, Load_any_model mp]\<rparr>"
      using streamlit_missing_load_fails [OF nf, of el img] by blast
  }
next
  assume nf: "run_process env (app_cli_cmd inp outp mp) (fs w) = (ExecNotFound msg, fs')"
  show "calls (snd (app_try_cli env mp img inp outp w)) =
        calls w @ [Subprocess_run (app_cli_cmd inp outp mp), Import_kraken] @
          (case import_kraken env of
             Some e \<Rightarrow> []
           | None \<Rightarrow> Load_any_model mp #
               (case load_any_model env mp of
                  Inl e \<Rightarrow> []
                | Inr m \<Rightarrow> Rpred_recognize m [img] #
                    (case rpred_recognize env m [heap w ! img] of
                       Inl e \<Rightarrow> [Rpred_rpred m [img]]
                     | Inr p \<Rightarrow> [])))"
    by (rule app_missing_calls [OF nf])
  {
    assume ok: "import_kraken env = None \<and> load_any_model env mp = Inr m
           \<and> (rpred_recognize env m [heap w ! img] = Inr preds
                \<or> (\<exists>e. rpred_recognize env m [heap w ! img] = Inl e)
                   \<and> rpred_rpred env m [heap w ! img] = Inr preds)"
    then show "fst (app_try_cli env mp img inp outp w) = Some (preds_to_text (py_str env) preds)"
      using app_missing_returns_text [OF nf, of m img preds] by blast
    from ok show "ui (snd (app_try_cli env mp img inp outp w)) =
            ui w @ [St_text ''Attempting to run Kraken CLI...'',
                    St_warning app_cli_not_found_warning,
                    St_text ''Loading model and running Kraken Python API...'',
                    St_success ''OCR completed via Kraken Python API'']"
      using app_missing_returns_text [OF nf, of m img preds] by blast
  }
  {
    assume "import_kraken env = Some ei"
    then show "app_try_cli env mp img inp outp w =
            (None,
             w\<lparr>fs := fs',
               ui := ui w @ [St_text ''Attempting to run Kraken CLI...'',
                    St_warning app_cli_not_found_warning,
                    St_error [Lit ''Failed to use Kraken Python API: '', StrExn ei],
                    St_info ''Install the 'kraken' package or ensure the 'kraken' CLI is available in PATH.''],
               calls := calls w @ [Subprocess_run (app_cli_cmd inp outp mp),
                    Import_kraken]\<rparr>)"
      by (rule app_missing_import_fails [OF nf])
  }
  {
    assume "import_kraken env = None \<and> load_any_model env mp = Inl el"
    then show "app_try_cli env mp img inp outp w =
            (None,
             w\<lparr>fs := fs',
               ui := ui w @ [St_text ''Attempting to run Kraken CLI...'',
                    St_warning app_cli_not_found_warning,
                    St_text ''Loading model and running Kraken Python API...'',
                    St_error [Lit ''Failed to use Kraken Python API: '', StrExn el],
                    St_info ''Install the 'kraken' package or ensure the 'kraken' CLI is available in PATH.''],
               calls := calls w @ [Subprocess_run (app_cli_cmd inp outp mp),
                    Import_kraken, Load_any_model mp]\<rparr>)"
      using app_missing_load_fails [OF nf, of el img] by blast
  }
qed simp_all

theorem fallback_tries_recognize_then_rpred_witness:
  "run_process demo_env_missing_cli
     (streamlit_cli_cmd ''/tmp/tmpk/input.png'' ''/tmp/tmpk/output.txt'' ''m'') (fs demo_world)
     = (ExecNotFound ''kraken'', Map.empty)
   \<and> import_kraken demo_env_missing_cli = None
   \<and> load_any_model demo_env_missing_cli ''m'' = Inr (Model 0)
   \<and> rpred_recognize demo_env_missing_cli (Model 0) [heap demo_world ! 0]
       = Inl (PyException ''no attribute recognize'')
   \<and> rpred_rpred demo_env_missing_cli (Model 0) [heap demo_world ! 0]
       = Inr (PyList [PyObj 0, PyObj 1])
   \<and> calls (streamlit_try_cli demo_env_missing_cli ''m'' 0 ''/tmp/tmpk/input.png''
         ''/tmp/tmpk/output.txt'' demo_world)
     = [Subprocess_run (streamlit_cli_cmd ''/tmp/tmpk/input.png'' ''/tmp/tmpk/output.txt'' ''m''),
        Import_kraken, Load_any_model ''m'', Rpred_recognize (Model 0) [0],
        Rpred_rpred (Model 0) [0]]
   \<and> ui (streamlit_try_cli demo_env_missing_cli ''m'' 0 ''/tmp/tmpk/input.png''
         ''/tmp/tmpk/output.txt'' demo_world)
     = [St_text ''Attempting to run Kraken CLI...'',
        St_warning cli_not_found_warning,
        St_text ''Running Kraken using Python API...'',
        St_success ''OCR completed via Kraken Python API'',
        St_text_area ''Recognized text'' (''shalom'' @ nl @ ''olam'') 300]
   \<and> fst (app_try_cli demo_env_missing_cli ''m'' 0 ''/tmp/tmpk/input.png''
         ''/tmp/tmpk/output.txt'' demo_world) = Some (''shalom'' @ nl @ ''olam'')
   \<and> import_kraken demo_env_no_package = Some (PyException ''No module named kraken'')
   \<and> streamlit_try_cli demo_env_no_package ''m'' 0 ''/tmp/tmpk/input.png''
         ''/tmp/tmpk/output.txt'' demo_world
     = demo_world
        \<lparr>ui := [St_text ''Attempting to run Kraken CLI...'',
                St_warning cli_not_found_warning,
                St_error [Lit ''Failed to use Kraken Python API: '',
                          StrExn (PyException ''No module named kraken'')],
                St_info ''Make sure the 'kraken' package is installed (pip install kraken) or the 'kraken' CLI is available in PATH''],
         calls := [Subprocess_run (streamlit_cli_cmd ''/tmp/tmpk/input.png''
                     ''/tmp/tmpk/output.txt'' ''m''), Import_kraken]\<rparr>
   \<and> fst (app_try_cli demo_env_no_package ''m'' 0 ''/tmp/tmpk/input.png''
         ''/tmp/tmpk/output.txt'' demo_world) = None
   \<and> import_kraken demo_env_no_model = None
   \<and> load_any_model demo_env_no_model ''m'' = Inl (FileNotFoundError ''no such model file'')
   \<and> ui (streamlit_try_cli demo_env_no_model ''m'' 0 ''/tmp/tmpk/input.png''
         ''/tmp/tmpk/output.txt'' demo_world)
     = [St_text ''Attempting to run Kraken CLI...'',
        St_warning cli_not_found_warning,
        St_text ''Running Kraken using Python API...'',
        St_error [Lit ''Failed to use Kraken Python API: '',
                  StrExn (FileNotFoundError ''no such model file'')],
        St_info ''Make sure the 'kraken' package is installed (pip install kraken) or the 'kraken' CLI is available in PATH'']
   \<and> app_try_cli demo_env_no_model ''m'' 0 ''/tmp/tmpk/input.png''
         ''/tmp/tmpk/output.txt'' demo_world
     = (None,
        demo_world
         \<lparr>ui := [St_text ''Attempting to run Kraken CLI...'',
                 St_warning app_cli_not_found_warning,
                 St_text ''Loading model and running Kraken Python API...'',
                 St_error [Lit ''Failed to use Kraken Python API: '',
                           StrExn (FileNotFoundError ''no such model file'')],
                 St_info ''Install the 'kraken' package or ensure the 'kraken' CLI is available in PATH.''],
          calls := [Subprocess_run (app_cli_cmd ''/tmp/tmpk/input.png''
                      ''/tmp/tmpk/output.txt'' ''m''), Import_kraken, Load_any_model ''m'']\<rparr>)"
  using fallback_tries_recognize_then_rpred
    [of demo_env_missing_cli "''/tmp/tmpk/input.png''" "''/tmp/tmpk/output.txt''" "''m''"
        demo_world "''kraken''" Map.empty 0 "Model 0" "PyList [PyObj 0, PyObj 1]"]
    fallback_tries_recognize_then_rpred
    [of demo_env_no_package "''/tmp/tmpk/input.png''" "''/tmp/tmpk/output.txt''" "''m''"
        demo_world "''kraken''" Map.empty 0 "Model 0" "PyList [PyObj 0, PyObj 1]"
        "PyException ''No module named kraken''"]
    fallback_tries_recognize_then_rpred
    [of demo_env_no_model "''/tmp/tmpk/input.png''" "''/tmp/tmpk/output.txt''" "''m''"
        demo_world "''kraken''" Map.empty 0 "Model 0" "PyList [PyObj 0, PyObj 1]"
        "PyException ''No module named kraken''" "FileNotFoundError ''no such model file''"]
  by (simp add: demo_env_no_model_def demo_env_no_package_def demo_env_missing_cli_def
        demo_env_def demo_world_def)

text \<open>
  C5. On the fallback path, when both recognition call shapes raise, the handler
  reports the failure of the Python interface with the message of the exception (that
  of the second call shape) and the guidance to install the engine package or make the
  CLI available, and shows no recognized text: no text area is rendered, and in the
  second script of app.py \<open>result_text\<close> stays \<open>None\<close>.
\<close>

theorem both_call_shapes_raise_reports_failure:
  "(run_process env (streamlit_cli_cmd inp outp mp) (fs w) = (ExecNotFound msg, fs')
      \<and> import_kraken env = None \<and> load_any_model env mp = Inr m
      \<and> rpred_recognize env m [heap w ! img] = Inl e1
      \<and> rpred_rpred env m [heap w ! img] = Inl e2 \<longrightarrow>
    streamlit_try_cli env mp img inp outp w =
      w\<lparr>fs := fs',
        ui := ui w @ [St_text ''Attempting to run Kraken CLI...'',
             St_warning cli_not_found_warning,
             St_text ''Running Kraken using Python API...'',
             St_error [Lit ''Failed to use Kraken Python API: '', StrExn e2],
             St_info ''Make sure the 'kraken' package is installed (pip install kraken) or the 'kraken' CLI is available in PATH''],
        calls := calls w @ [Subprocess_run (streamlit_cli_cmd inp outp mp),
             Import_kraken, Load_any_model mp,
             Rpred_recognize m [img], Rpred_rpred m [img]]\<rparr>)
   \<and> (run_process env (app_cli_cmd inp outp mp) (fs w) = (ExecNotFound msg, fs')
      \<and> import_kraken env = None \<and> load_any_model env mp = Inr m
      \<and> rpred_recognize env m [heap w ! img] = Inl e1
      \<and> rpred_rpred env m [heap w ! img] = Inl e2 \<longrightarrow>
    app_try_cli env mp img inp outp w =
      (None,
       w\<lparr>fs := fs',
         ui := ui w @ [St_text ''Attempting to run Kraken CLI...'',
              St_warning app_cli_not_found_warning,
              St_text ''Loading model and running Kraken Python API...'',
              St_error [Lit ''Failed to use Kraken Python API: '', StrExn e2],
              St_info ''Install the 'kraken' package or ensure the 'kraken' CLI is available in PATH.''],
         calls := calls w @ [Subprocess_run (app_cli_cmd inp outp mp),
              Import_kraken, Load_any_model mp,
              Rpred_recognize m [img], Rpred_rpred m [img]]\<rparr>))
   \<and> ui (app_show_result None w) = ui w @ [St_rtl_css]"
  using streamlit_missing_both_raise [of env inp outp mp w msg fs' m img e1 e2]
    app_missing_both_raise [of env inp outp mp w msg fs' m img e1 e2]
  by (simp add: app_show_result_def)

theorem both_call_shapes_raise_reports_failure_witness:
  "run_process demo_env_both_raise
     (streamlit_cli_cmd ''/tmp/tmpk/input.png'' ''/tmp/tmpk/output.txt'' ''m'') (fs demo_world)
     = (ExecNotFound ''kraken'', Map.empty)
   \<and> import_kraken demo_env_both_raise = None
   \<and> load_any_model demo_env_both_raise ''m'' = Inr (Model 0)
   \<and> rpred_recognize demo_env_both_raise (Model 0) [heap demo_world ! 0]
       = Inl (PyException ''no attribute recognize'')
   \<and> rpred_rpred demo_env_both_raise (Model 0) [heap demo_world ! 0]
       = Inl (PyException ''unexpected arguments'')
   \<and> ui (streamlit_try_cli demo_env_both_raise ''m'' 0 ''/tmp/tmpk/input.png''
         ''/tmp/tmpk/output.txt'' demo_world)
     = [St_text ''Attempting to run Kraken CLI...'',
        St_warning cli_not_found_warning,
        St_text ''Running Kraken using Python API...'',
        St_error [Lit ''Failed to use Kraken Python API: '',
                  StrExn (PyException ''unexpected arguments'')],
        St_info ''Make sure the 'kraken' package is installed (pip install kraken) or the 'kraken' CLI is available in PATH'']
   \<and> fst (app_try_cli demo_env_both_raise ''m'' 0 ''/tmp/tmpk/input_processed.png''
         ''/tmp/tmpk/output.txt'' demo_world) = None"
  using both_call_shapes_raise_reports_failure
    [of demo_env_both_raise "''/tmp/tmpk/input.png''" "''/tmp/tmpk/output.txt''" "''m''"
        demo_world "''kraken''" Map.empty "Model 0" 0 "PyException ''no attribute recognize''"
        "PyException ''unexpected arguments''"]
    both_call_shapes_raise_reports_failure
    [of demo_env_both_raise "''/tmp/tmpk/input_processed.png''" "''/tmp/tmpk/output.txt''" "''m''"
        demo_world "''kraken''" Map.empty "Model 0" 0 "PyException ''no attribute recognize''"
        "PyException ''unexpected arguments''"]
  by (simp add: demo_env_both_raise_def demo_env_missing_cli_def demo_env_def demo_world_def)

subsection \<open>The workspace\<close>

lemma app_first_except_fs_grows:
  assumes keep2: "\<And>cmd f. dom f \<subseteq> dom (snd (run_process env2 cmd f))"
  shows "dom (fs w) \<subseteq> dom (fs (snd (app_first_except env2 e w)))"
proof (cases e)
  case (FileNotFoundError m)
  have "dom (fs (emits [St_warning cli_not_found_warning] w))
          \<subseteq> dom (fs (snd (app_second env2 (emits [St_warning cli_not_found_warning] w))))"
    by (rule app_second_fs_grows [OF keep2])
  with FileNotFoundError show ?thesis by simp
qed simp_all

lemma app_first_try_cli_fs_grows:
  assumes keep2: "\<And>cmd f. dom f \<subseteq> dom (snd (run_process env2 cmd f))"
  shows "dom (snd (run_process env (app_first_cli_cmd inp outp mp) (fs w)))
           \<subseteq> dom (fs (snd (app_first_try_cli env env2 mp inp outp w)))"
proof -
  obtain r fs' where rp: "run_process env (app_first_cli_cmd inp outp mp) (fs w) = (r, fs')"
    by (cases "run_process env (app_first_cli_cmd inp outp mp) (fs w)")
  let ?w2 = "logs [Subprocess_run (app_first_cli_cmd inp outp mp)]
              ((emits [St_text ''Attempting to run Kraken CLI...''] w)\<lparr>fs := fs'\<rparr>)"
  have ex: "\<And>e. dom fs' \<subseteq> dom (fs (snd (app_first_except env2 e ?w2)))"
    using app_first_except_fs_grows [OF keep2, of ?w2] by simp
  show ?thesis
    using rp ex
    by (simp add: app_first_try_cli_def Let_def split: sum.splits option.splits)
qed

lemma app_first_run_ocr_fs_grows:
  assumes keep: "\<And>cmd f. dom f \<subseteq> dom (snd (run_process env cmd f))"
    and keep2: "\<And>cmd f. dom f \<subseteq> dom (snd (run_process env2 cmd f))"
  shows "dom (fs w) \<subseteq> dom (fs (snd (app_first_run_ocr env env2 mp img w)))"
    and "mkdtemp env = Inr tmpdir \<Longrightarrow>
           tmpdir \<in> dom (fs (snd (app_first_run_ocr env env2 mp img w)))"
    and "mkdtemp env = Inr tmpdir \<Longrightarrow>
         image_save env (heap w ! img) (os_path_join tmpdir ''input.png'') = None \<Longrightarrow>
           os_path_join tmpdir ''input.png''
             \<in> dom (fs (snd (app_first_run_ocr env env2 mp img w)))"
proof -
  have step: "\<And>t. dom ((fs w)(t \<mapsto> Dir, os_path_join t ''input.png'' \<mapsto> ImageFile (heap w ! img)))
      \<subseteq> dom (fs (snd (app_first_try_cli env env2 mp (os_path_join t ''input.png'')
              (os_path_join t ''output.txt'')
              (w\<lparr>fs := (fs w)(t \<mapsto> Dir,
                     os_path_join t ''input.png'' \<mapsto> ImageFile (heap w ! img))\<rparr>))))"
  proof -
    fix t
    let ?f = "(fs w)(t \<mapsto> Dir, os_path_join t ''input.png'' \<mapsto> ImageFile (heap w ! img))"
    have "dom ?f \<subseteq> dom (snd (run_process env
             (app_first_cli_cmd (os_path_join t ''input.png'') (os_path_join t ''output.txt'') mp) ?f))"
      by (rule keep)
    also have "\<dots> \<subseteq> dom (fs (snd (app_first_try_cli env env2 mp (os_path_join t ''input.png'')
              (os_path_join t ''output.txt'') (w\<lparr>fs := ?f\<rparr>))))"
      using app_first_try_cli_fs_grows [OF keep2, of env "os_path_join t ''input.png''"
              "os_path_join t ''output.txt''" mp "w\<lparr>fs := ?f\<rparr>"]
      by simp
    finally show "dom ?f \<subseteq> dom (fs (snd (app_first_try_cli env env2 mp (os_path_join t ''input.png'')
              (os_path_join t ''output.txt'') (w\<lparr>fs := ?f\<rparr>))))" .
  qed
  show "dom (fs w) \<subseteq> dom (fs (snd (app_first_run_ocr env env2 mp img w)))"
    using step
    by (auto simp: app_first_run_ocr_def Let_def split: sum.splits option.splits)
  show "mkdtemp env = Inr tmpdir \<Longrightarrow>
           tmpdir \<in> dom (fs (snd (app_first_run_ocr env env2 mp img w)))"
    using step [of tmpdir]
    by (auto simp: app_first_run_ocr_def Let_def split: sum.splits option.splits)
  show "mkdtemp env = Inr tmpdir \<Longrightarrow>
         image_save env (heap w ! img) (os_path_join tmpdir ''input.png'') = None \<Longrightarrow>
           os_path_join tmpdir ''input.png''
             \<in> dom (fs (snd (app_first_run_ocr env env2 mp img w)))"
    using step [of tmpdir]
    by (auto simp: app_first_run_ocr_def Let_def split: sum.splits option.splits)
qed


text \<open>
  C9. On every outcome of a run of the handler the temporary workspace directory and
  the files written into it still exist afterwards: provided the external process
  itself removes nothing, every path that existed before the run, the directory made
  by \<open>mkdtemp\<close> and the saved input image are in the file system the handler leaves,
  and in app_streamlit.py and the second script of app.py that file system is exactly
  the one the external process left. No step of a handler removes a path.
\<close>

theorem workspace_is_never_deleted:
  assumes keep: "\<forall>cmd f. dom f \<subseteq> dom (snd (run_process env cmd f))"
    and keep2: "\<forall>cmd f. dom f \<subseteq> dom (snd (run_process env2 cmd f))"
  shows "dom (fs w) \<subseteq> dom (fs (snd (streamlit_run_ocr env mp img w)))
     \<and> dom (fs w) \<subseteq> dom (fs (snd (app_run_ocr env mp img w)))
     \<and> dom (fs w) \<subseteq> dom (fs (snd (app_first_run_ocr env env2 mp img w)))
     \<and> (mkdtemp env = Inr tmpdir \<longrightarrow>
          tmpdir \<in> dom (fs (snd (streamlit_run_ocr env mp img w)))
          \<and> tmpdir \<in> dom (fs (snd (app_run_ocr env mp img w)))
          \<and> tmpdir \<in> dom (fs (snd (app_first_run_ocr env env2 mp img w))))
     \<and> (mkdtemp env = Inr tmpdir
          \<and> image_save env (heap w ! img) (os_path_join tmpdir ''input.png'') = None \<longrightarrow>
          os_path_join tmpdir ''input.png'' \<in> dom (fs (snd (streamlit_run_ocr env mp img w)))
          \<and> os_path_join tmpdir ''input.png''
                \<in> dom (fs (snd (app_first_run_ocr env env2 mp img w)))
          \<and> fs (snd (streamlit_run_ocr env mp img w)) =
               snd (run_process env
                 (streamlit_cli_cmd (os_path_join tmpdir ''input.png'')
                    (os_path_join tmpdir ''output.txt'') mp)
                 ((fs w)(tmpdir \<mapsto> Dir,
                         os_path_join tmpdir ''input.png'' \<mapsto> ImageFile (heap w ! img)))))
     \<and> (mkdtemp env = Inr tmpdir
          \<and> image_save env (heap w ! img) (os_path_join tmpdir ''input_processed.png'') = None \<longrightarrow>
          os_path_join tmpdir ''input_processed.png''
                \<in> dom (fs (snd (app_run_ocr env mp img w)))
          \<and> fs (snd (app_run_ocr env mp img w)) =
               snd (run_process env
                 (app_cli_cmd (os_path_join tmpdir ''input_processed.png'')
                    (os_path_join tmpdir ''output.txt'') mp)
                 ((fs w)(tmpdir \<mapsto> Dir,
                         os_path_join tmpdir ''input_processed.png'' \<mapsto>
                           ImageFile (heap w ! img)))))"
proof -
  have k: "\<And>cmd f. dom f \<subseteq> dom (snd (run_process env cmd f))" using keep by simp
  have k2: "\<And>cmd f. dom f \<subseteq> dom (snd (run_process env2 cmd f))" using keep2 by simp
  have kp: "\<And>cmd f p. p \<in> dom f \<Longrightarrow> p \<in> dom (snd (run_process env cmd f))"
    using k by blast
  have s1: "dom (fs w) \<subseteq> dom (fs (snd (streamlit_run_ocr env mp img w)))"
    by (rule streamlit_run_ocr_fs_grows [OF k])
  have s2: "dom (fs w) \<subseteq> dom (fs (snd (app_run_ocr env mp img w)))"
    by (rule app_run_ocr_fs_grows [OF k])
  have s3: "dom (fs w) \<subseteq> dom (fs (snd (app_first_run_ocr env env2 mp img w)))"
    by (rule app_first_run_ocr_fs_grows(1) [OF k k2])
  have t1: "mkdtemp env = Inr tmpdir \<Longrightarrow>
              tmpdir \<in> dom (fs (snd (streamlit_run_ocr env mp img w)))"
    by (auto simp: streamlit_run_ocr_fs split: option.splits intro!: kp)
  have t2: "mkdtemp env = Inr tmpdir \<Longrightarrow>
              tmpdir \<in> dom (fs (snd (app_run_ocr env mp img w)))"
    by (auto simp: app_run_ocr_fs split: option.splits intro!: kp)
  have t3: "mkdtemp env = Inr tmpdir \<Longrightarrow>
              tmpdir \<in> dom (fs (snd (app_first_run_ocr env env2 mp img w)))"
    by (rule app_first_run_ocr_fs_grows(2) [OF k k2])
  have i1: "mkdtemp env = Inr tmpdir \<Longrightarrow>
            image_save env (heap w ! img) (os_path_join tmpdir ''input.png'') = None \<Longrightarrow>
              os_path_join tmpdir ''input.png''
                \<in> dom (fs (snd (streamlit_run_ocr env mp img w)))"
    by (auto simp: streamlit_run_ocr_fs intro!: kp)
  have i2: "mkdtemp env = Inr tmpdir \<Longrightarrow>
            image_save env (heap w ! img) (os_path_join tmpdir ''input_processed.png'') = None \<Longrightarrow>
              os_path_join tmpdir ''input_processed.png''
                \<in> dom (fs (snd (app_run_ocr env mp img w)))"
    by (auto simp: app_run_ocr_fs intro!: kp)
  have i3: "mkdtemp env = Inr tmpdir \<Longrightarrow>
            image_save env (heap w ! img) (os_path_join tmpdir ''input.png'') = None \<Longrightarrow>
              os_path_join tmpdir ''input.png''
                \<in> dom (fs (snd (app_first_run_ocr env env2 mp img w)))"
    by (rule app_first_run_ocr_fs_grows(3) [OF k k2])
  show ?thesis
    using s1 s2 s3 t1 t2 t3 i1 i2 i3
    by (simp add: streamlit_run_ocr_fs app_run_ocr_fs)
qed

theorem workspace_is_never_deleted_witness:
  "(\<forall>cmd f. dom f \<subseteq> dom (snd (run_process demo_env cmd f)))
   \<and> (\<forall>cmd f. dom f \<subseteq> dom (snd (run_process demo_env_missing_cli cmd f)))
   \<and> mkdtemp demo_env = Inr ''/tmp/tmpk''
   \<and> image_save demo_env (heap demo_world ! 0) (os_path_join ''/tmp/tmpk'' ''input.png'') = None
   \<and> ''/tmp/tmpk'' \<in> dom (fs (snd (streamlit_run_ocr demo_env ''m'' 0 demo_world)))
   \<and> ''/tmp/tmpk/input.png'' \<in> dom (fs (snd (streamlit_run_ocr demo_env ''m'' 0 demo_world)))
   \<and> ''/tmp/tmpk/input.png''
        \<in> dom (fs (snd (app_first_run_ocr demo_env demo_env_missing_cli ''m'' 0 demo_world)))
   \<and> ''/tmp/tmpk/input_processed.png''
        \<in> dom (fs (snd (app_run_ocr demo_env ''m'' 0 demo_world)))
   \<and> fs (snd (streamlit_run_ocr demo_env ''m'' 0 demo_world))
       = [''/tmp/tmpk'' \<mapsto> Dir, ''/tmp/tmpk/input.png'' \<mapsto> ImageFile demo_image,
          ''/tmp/tmpk/output.txt'' \<mapsto> TextFile ''abc'']"
proof -
  have k: "\<forall>cmd f. dom f \<subseteq> dom (snd (run_process demo_env cmd f))"
    by (auto simp: demo_env_def)
  have k2: "\<forall>cmd f. dom f \<subseteq> dom (snd (run_process demo_env_missing_cli cmd f))"
    by (auto simp: demo_env_missing_cli_def demo_env_def)
  show ?thesis
    using k k2
      workspace_is_never_deleted [OF k k2, of demo_world "''m''" 0 "''/tmp/tmpk''"]
    by (simp add: demo_env_def demo_world_def os_path_join_def)
qed

section \<open>Image acquisition\<close>

lemma decode_attempts_append [simp]:
  "decode_attempts (xs @ ys) = decode_attempts xs @ decode_attempts ys"
  by (simp add: decode_attempts_def)

lemma decode_attempts_simps [simp]:
  "decode_attempts [] = []"
  "decode_attempts (Image_open_convert f m # cs) = Image_open_convert f m # decode_attempts cs"
  "decode_attempts (Image_open f # cs) = decode_attempts cs"
  "decode_attempts (Subprocess_run cmd # cs) = decode_attempts cs"
  "decode_attempts (Import_kraken # cs) = decode_attempts cs"
  "decode_attempts (Load_any_model mp # cs) = decode_attempts cs"
  "decode_attempts (Rpred_recognize md rs # cs) = decode_attempts cs"
  "decode_attempts (Rpred_rpred md rs # cs) = decode_attempts cs"
  by (simp_all add: decode_attempts_def)

lemma streamlit_fallback_decodes:
  "decode_attempts (calls (streamlit_fallback env mp img w)) = decode_attempts (calls w)"
  by (simp add: streamlit_fallback_calls split: option.splits sum.splits)

lemma app_fallback_decodes:
  "decode_attempts (calls (snd (app_fallback env mp img w))) = decode_attempts (calls w)"
  by (simp add: app_fallback_calls split: option.splits sum.splits)

lemma streamlit_except_decodes:
  "decode_attempts (calls (streamlit_except env mp img e w)) = decode_attempts (calls w)"
  by (cases e) (simp_all add: streamlit_fallback_decodes)

lemma app_except_decodes:
  "decode_attempts (calls (snd (app_except env mp img e w))) = decode_attempts (calls w)"
  by (cases e) (simp_all add: app_fallback_decodes)

lemma streamlit_try_cli_decodes:
  "decode_attempts (calls (streamlit_try_cli env mp img inp outp w)) = decode_attempts (calls w)"
  by (simp add: streamlit_try_cli_def Let_def streamlit_except_decodes
        split: prod.splits sum.splits option.splits)

lemma app_try_cli_decodes:
  "decode_attempts (calls (snd (app_try_cli env mp img inp outp w))) = decode_attempts (calls w)"
  by (simp add: app_try_cli_def Let_def app_except_decodes
        split: prod.splits sum.splits option.splits)

lemma streamlit_run_ocr_decodes:
  "decode_attempts (calls (snd (streamlit_run_ocr env mp img w))) = decode_attempts (calls w)"
  by (simp add: streamlit_run_ocr_def Let_def streamlit_try_cli_decodes
        split: sum.splits option.splits)

lemma app_run_ocr_decodes:
  "decode_attempts (calls (snd (app_run_ocr env mp img w))) = decode_attempts (calls w)"
  by (simp add: app_run_ocr_def Let_def app_try_cli_decodes case_prod_beta
        split: sum.splits option.splits)

lemma app_show_result_calls: "calls (app_show_result t w) = calls w"
  by (simp add: app_show_result_def Let_def split: option.splits)

lemma app_run_ocr_decodes_dest:
  "app_run_ocr env mp img w = (r, w') \<Longrightarrow> decode_attempts (calls w') = decode_attempts (calls w)"
  using app_run_ocr_decodes [of env mp img w] by simp

lemma app_second_decodes:
  "decode_attempts (calls (snd (app_second env w))) = decode_attempts (calls w)"
  unfolding app_second_def Let_def
  by (auto simp: app_show_result_calls apply_threshold_eq alloc_def
        split: option.splits sum.splits prod.splits
        dest!: app_run_ocr_decodes_dest)

lemma app_first_except_decodes:
  "decode_attempts (calls (snd (app_first_except env2 e w))) = decode_attempts (calls w)"
  by (cases e) (simp_all add: app_second_decodes)

lemma app_first_try_cli_decodes:
  "decode_attempts (calls (snd (app_first_try_cli env env2 mp inp outp w)))
     = decode_attempts (calls w)"
  by (simp add: app_first_try_cli_def Let_def app_first_except_decodes
        split: prod.splits sum.splits option.splits)

lemma app_first_run_ocr_decodes:
  "decode_attempts (calls (snd (app_first_run_ocr env env2 mp img w)))
     = decode_attempts (calls w)"
  by (simp add: app_first_run_ocr_def Let_def app_first_try_cli_decodes
        split: sum.splits option.splits)

lemma streamlit_sidebar_calls [simp]: "calls (streamlit_sidebar w) = calls w"
  by (simp add: streamlit_sidebar_def)

lemma decode_upload_calls:
  "calls (snd (decode_upload env f w)) =
     calls w @ (case pil_open_convert env f ''L'' of
                  Inr im \<Rightarrow> [Image_open_convert f ''L'']
                | Inl e \<Rightarrow> [Image_open_convert f ''L'', Image_open_convert f ''RGB''])"
  by (simp add: decode_upload_def split: sum.splits)


lemma streamlit_run_ocr_decodes_dest:
  "streamlit_run_ocr env mp img w = (r, w') \<Longrightarrow>
     decode_attempts (calls w') = decode_attempts (calls w)"
  using streamlit_run_ocr_decodes [of env mp img w] by simp

lemma app_first_run_ocr_decodes_dest:
  "app_first_run_ocr env env2 mp img w = (r, w') \<Longrightarrow>
     decode_attempts (calls w') = decode_attempts (calls w)"
  using app_first_run_ocr_decodes [of env env2 mp img w] by simp

lemma decode_upload_dest:
  "decode_upload env f w = (r, w') \<Longrightarrow>
     calls w' = calls w @ (case pil_open_convert env f ''L'' of
                  Inr im \<Rightarrow> [Image_open_convert f ''L'']
                | Inl e \<Rightarrow> [Image_open_convert f ''L'', Image_open_convert f ''RGB''])"
  using decode_upload_calls [of env f w] by simp

lemma app_streamlit_decodes:
  assumes "file_uploader env = Some f"
  shows "decode_attempts (calls (snd (app_streamlit env w))) =
           decode_attempts (calls w) @
             (case pil_open_convert env f ''L'' of
                Inr im \<Rightarrow> [Image_open_convert f ''L'']
              | Inl e \<Rightarrow> [Image_open_convert f ''L'', Image_open_convert f ''RGB''])"
  using assms
  unfolding app_streamlit_def Let_def
  by (auto simp: alloc_def split: prod.splits sum.splits option.splits
        dest!: streamlit_run_ocr_decodes_dest decode_upload_dest)

lemma app_first_decodes:
  assumes "file_uploader env = Some f"
  shows "decode_attempts (calls (snd (app_first env env2 w))) =
           decode_attempts (calls w) @
             (case pil_open_convert env f ''L'' of
                Inr im \<Rightarrow> [Image_open_convert f ''L'']
              | Inl e \<Rightarrow> [Image_open_convert f ''L'', Image_open_convert f ''RGB''])"
proof -
  obtain r w2 where d: "decode_upload env f (emits streamlit_header w) = (r, w2)"
    by (cases "decode_upload env f (emits streamlit_header w)")
  have c2: "calls w2 = calls w @
             (case pil_open_convert env f ''L'' of
                Inr im \<Rightarrow> [Image_open_convert f ''L'']
              | Inl e \<Rightarrow> [Image_open_convert f ''L'', Image_open_convert f ''RGB''])"
    using decode_upload_dest [OF d] by simp
  show ?thesis
  proof (cases r)
    case (Inl e)
    with d assms c2 show ?thesis
      by (simp add: app_first_def Let_def split: sum.splits)
  next
    case (Inr im)
    with d assms c2 show ?thesis
      by (simp add: app_first_def Let_def alloc_def app_first_run_ocr_decodes
            split: sum.splits)
  qed
qed

lemma decode_upload_both_fail:
  assumes "pil_open_convert env f ''L'' = Inl e1" and "pil_open_convert env f ''RGB'' = Inl e2"
  shows "decode_upload env f w =
           (Inl e2, w\<lparr>calls := calls w @ [Image_open_convert f ''L'', Image_open_convert f ''RGB'']\<rparr>)"
  using assms by (simp add: decode_upload_def logs_def)

lemma decode_upload_succeeds:
  assumes "pil_open_convert env f ''L'' = Inr im
           \<or> (\<exists>e. pil_open_convert env f ''L'' = Inl e) \<and> pil_open_convert env f ''RGB'' = Inr im"
  shows "fst (decode_upload env f w) = Inr im
         \<and> ui (snd (decode_upload env f w)) = ui w
         \<and> heap (snd (decode_upload env f w)) = heap w
         \<and> fs (snd (decode_upload env f w)) = fs w"
  using assms by (auto simp: decode_upload_def)

lemma app_streamlit_both_fail:
  assumes "file_uploader env = Some f"
    and "pil_open_convert env f ''L'' = Inl e1" and "pil_open_convert env f ''RGB'' = Inl e2"
  shows "app_streamlit env w =
           (Some e2,
            w\<lparr>ui := ui w @ streamlit_header,
              calls := calls w @ [Image_open_convert f ''L'', Image_open_convert f ''RGB'']\<rparr>)"
  using assms(1)
  by (simp add: app_streamlit_def Let_def decode_upload_both_fail [OF assms(2,3)] emits_def)

lemma app_first_both_fail:
  assumes "file_uploader env = Some f"
    and "pil_open_convert env f ''L'' = Inl e1" and "pil_open_convert env f ''RGB'' = Inl e2"
  shows "app_first env env2 w =
           (Some e2,
            w\<lparr>ui := ui w @ streamlit_header,
              calls := calls w @ [Image_open_convert f ''L'', Image_open_convert f ''RGB'']\<rparr>)"
  using assms(1)
  by (simp add: app_first_def Let_def decode_upload_both_fail [OF assms(2,3)] emits_def)

lemma app_first_shows_decoded:
  assumes "file_uploader env = Some f" and "\<not> button_run_ocr env"
    and "pil_open_convert env f ''L'' = Inr im
         \<or> (\<exists>e. pil_open_convert env f ''L'' = Inl e) \<and> pil_open_convert env f ''RGB'' = Inr im"
  shows "fst (app_first env env2 w) = None
         \<and> ui (snd (app_first env env2 w)) =
             ui w @ streamlit_header @
               [St_image (length (heap w)) [Lit ''Uploaded image''], St_button ''Run OCR'']
         \<and> heap (snd (app_first env env2 w)) = heap w @ [im]"
proof -
  obtain r w2 where d: "decode_upload env f (emits streamlit_header w) = (r, w2)"
    by (cases "decode_upload env f (emits streamlit_header w)")
  with decode_upload_succeeds [OF assms(3), of "emits streamlit_header w"]
  have "r = Inr im" "ui w2 = ui w @ streamlit_header" "heap w2 = heap w" by simp_all
  with d assms(1,2) show ?thesis
    by (simp add: app_first_def Let_def alloc_def)
qed

lemma app_streamlit_shows_decoded:
  assumes "file_uploader env = Some f" and "\<not> button_run_ocr env"
    and "pil_open_convert env f ''L'' = Inr im
         \<or> (\<exists>e. pil_open_convert env f ''L'' = Inl e) \<and> pil_open_convert env f ''RGB'' = Inr im"
  shows "fst (app_streamlit env w) = None
         \<and> ui (snd (app_streamlit env w)) =
             ui (streamlit_sidebar (emits (streamlit_header @
               [St_image (length (heap w)) [Lit ''Uploaded image''], St_button ''Run OCR'']) w))
         \<and> heap (snd (app_streamlit env w)) = heap w @ [im]"
proof -
  obtain r w2 where d: "decode_upload env f (emits streamlit_header w) = (r, w2)"
    by (cases "decode_upload env f (emits streamlit_header w)")
  with decode_upload_succeeds [OF assms(3), of "emits streamlit_header w"]
  have "r = Inr im" "ui w2 = ui w @ streamlit_header" "heap w2 = heap w" by simp_all
  with d assms(1,2) show ?thesis
    by (simp add: app_streamlit_def Let_def alloc_def streamlit_sidebar_def)
qed

lemma header_has_no_bitmap_or_button:
  "\<not> list_ex is_bitmap (streamlit_header @ [St_exception e])"
  "\<not> list_ex is_run_button (streamlit_header @ [St_exception e])"
  "list_ex is_error_message (streamlit_header @ [St_exception e])"
  "\<not> list_ex is_error_message streamlit_header"
  by (simp_all add: streamlit_header_def)

lemma app_streamlit_both_fail_shown:
  assumes "file_uploader env = Some f"
    and "pil_open_convert env f ''L'' = Inl e1" and "pil_open_convert env f ''RGB'' = Inl e2"
  shows "streamlit_run (app_streamlit env w) =
           w\<lparr>ui := ui w @ streamlit_header @ [St_exception e2],
             calls := calls w @ [Image_open_convert f ''L'', Image_open_convert f ''RGB'']\<rparr>"
  by (simp add: app_streamlit_both_fail [OF assms] emits_def)

lemma app_first_both_fail_shown:
  assumes "file_uploader env = Some f"
    and "pil_open_convert env f ''L'' = Inl e1" and "pil_open_convert env f ''RGB'' = Inl e2"
  shows "streamlit_run (app_first env env2 w) =
           w\<lparr>ui := ui w @ streamlit_header @ [St_exception e2],
             calls := calls w @ [Image_open_convert f ''L'', Image_open_convert f ''RGB'']\<rparr>"
  by (simp add: app_first_both_fail [OF assms] emits_def)

text \<open>
  C8. For every uploaded byte sequence, image acquisition in the first scripts
  attempts a grayscale decode first and retries as RGB if and only if that raised. If
  both attempts raise, the run fails with the exception of the RGB attempt: the script
  has no handler for it and issues no error message of its own, and the script runner
  renders that exception to the user as an error message; the page then holds the
  header and the error, so no bitmap is displayed and the Run OCR button, with it the
  OCR step, is not there. If either attempt succeeds, the decoded bitmap is displayed
  and the button rendered.
\<close>

theorem decode_tries_grayscale_then_rgb:
  assumes "file_uploader env = Some f"
  shows "decode_attempts (calls (snd (app_streamlit env w))) =
           decode_attempts (calls w) @
             (case pil_open_convert env f ''L'' of
                Inr im \<Rightarrow> [Image_open_convert f ''L'']
              | Inl e \<Rightarrow> [Image_open_convert f ''L'', Image_open_convert f ''RGB''])
     \<and> decode_attempts (calls (snd (app_first env env2 w))) =
           decode_attempts (calls w) @
             (case pil_open_convert env f ''L'' of
                Inr im \<Rightarrow> [Image_open_convert f ''L'']
              | Inl e \<Rightarrow> [Image_open_convert f ''L'', Image_open_convert f ''RGB''])
     \<and> (pil_open_convert env f ''L'' = Inl e1 \<and> pil_open_convert env f ''RGB'' = Inl e2 \<longrightarrow>
          app_streamlit env w =
            (Some e2,
             w\<lparr>ui := ui w @ streamlit_header,
               calls := calls w @ [Image_open_convert f ''L'', Image_open_convert f ''RGB'']\<rparr>)
          \<and> app_first env env2 w =
            (Some e2,
             w\<lparr>ui := ui w @ streamlit_header,
               calls := calls w @ [Image_open_convert f ''L'', Image_open_convert f ''RGB'']\<rparr>)
          \<and> streamlit_run (app_streamlit env w) =
             w\<lparr>ui := ui w @ streamlit_header @ [St_exception e2],
               calls := calls w @ [Image_open_convert f ''L'', Image_open_convert f ''RGB'']\<rparr>
          \<and> streamlit_run (app_first env env2 w) =
             w\<lparr>ui := ui w @ streamlit_header @ [St_exception e2],
               calls := calls w @ [Image_open_convert f ''L'', Image_open_convert f ''RGB'']\<rparr>
          \<and> list_ex is_error_message
               (drop (length (ui w)) (ui (streamlit_run (app_streamlit env w))))
          \<and> \<not> list_ex is_bitmap
               (drop (length (ui w)) (ui (streamlit_run (app_streamlit env w))))
          \<and> \<not> list_ex is_run_button
               (drop (length (ui w)) (ui (streamlit_run (app_streamlit env w))))
          \<and> list_ex is_error_message
               (drop (length (ui w)) (ui (streamlit_run (app_first env env2 w))))
          \<and> \<not> list_ex is_bitmap
               (drop (length (ui w)) (ui (streamlit_run (app_first env env2 w))))
          \<and> \<not> list_ex is_run_button
               (drop (length (ui w)) (ui (streamlit_run (app_first env env2 w)))))
     \<and> (\<not> button_run_ocr env
          \<and> (pil_open_convert env f ''L'' = Inr im
               \<or> (\<exists>e. pil_open_convert env f ''L'' = Inl e)
                  \<and> pil_open_convert env f ''RGB'' = Inr im) \<longrightarrow>
          fst (app_streamlit env w) = None
          \<and> ui (snd (app_streamlit env w)) =
              ui (streamlit_sidebar (emits (streamlit_header @
                [St_image (length (heap w)) [Lit ''Uploaded image''], St_button ''Run OCR'']) w))
          \<and> heap (snd (app_streamlit env w)) = heap w @ [im]
          \<and> fst (app_first env env2 w) = None
          \<and> ui (snd (app_first env env2 w)) =
              ui w @ streamlit_header @
                [St_image (length (heap w)) [Lit ''Uploaded image''], St_button ''Run OCR'']
          \<and> heap (snd (app_first env env2 w)) = heap w @ [im])"
proof (intro conjI impI)
  show "decode_attempts (calls (snd (app_streamlit env w))) =
           decode_attempts (calls w) @
             (case pil_open_convert env f ''L'' of
                Inr im \<Rightarrow> [Image_open_convert f ''L'']
              | Inl e \<Rightarrow> [Image_open_convert f ''L'', Image_open_convert f ''RGB''])"
    by (rule app_streamlit_decodes [OF assms])
  show "decode_attempts (calls (snd (app_first env env2 w))) =
           decode_attempts (calls w) @
             (case pil_open_convert env f ''L'' of
                Inr im \<Rightarrow> [Image_open_convert f ''L'']
              | Inl e \<Rightarrow> [Image_open_convert f ''L'', Image_open_convert f ''RGB''])"
    by (rule app_first_decodes [OF assms])
next
  assume "pil_open_convert env f ''L'' = Inl e1 \<and> pil_open_convert env f ''RGB'' = Inl e2"
  then have l: "pil_open_convert env f ''L'' = Inl e1"
    and r: "pil_open_convert env f ''RGB'' = Inl e2" by simp_all
  note raw1 = app_streamlit_both_fail [OF assms l r, of w]
  note raw2 = app_first_both_fail [OF assms l r, of env2 w]
  note run1 = app_streamlit_both_fail_shown [OF assms l r, of w]
  note run2 = app_first_both_fail_shown [OF assms l r, of env2 w]
  show "app_streamlit env w =
            (Some e2,
             w\<lparr>ui := ui w @ streamlit_header,
               calls := calls w @ [Image_open_convert f ''L'', Image_open_convert f ''RGB'']\<rparr>)"
    by (rule raw1)
  show "app_first env env2 w =
            (Some e2,
             w\<lparr>ui := ui w @ streamlit_header,
               calls := calls w @ [Image_open_convert f ''L'', Image_open_convert f ''RGB'']\<rparr>)"
    by (rule raw2)
  show "streamlit_run (app_streamlit env w) =
             w\<lparr>ui := ui w @ streamlit_header @ [St_exception e2],
               calls := calls w @ [Image_open_convert f ''L'', Image_open_convert f ''RGB'']\<rparr>"
    by (rule run1)
  show "streamlit_run (app_first env env2 w) =
             w\<lparr>ui := ui w @ streamlit_header @ [St_exception e2],
               calls := calls w @ [Image_open_convert f ''L'', Image_open_convert f ''RGB'']\<rparr>"
    by (rule run2)
  show "list_ex is_error_message
          (drop (length (ui w)) (ui (streamlit_run (app_streamlit env w))))"
    using header_has_no_bitmap_or_button(3) [of e2] by (simp add: run1)
  show "\<not> list_ex is_bitmap
          (drop (length (ui w)) (ui (streamlit_run (app_streamlit env w))))"
    using header_has_no_bitmap_or_button(1) [of e2] by (simp add: run1)
  show "\<not> list_ex is_run_button
          (drop (length (ui w)) (ui (streamlit_run (app_streamlit env w))))"
    using header_has_no_bitmap_or_button(2) [of e2] by (simp add: run1)
  show "list_ex is_error_message
          (drop (length (ui w)) (ui (streamlit_run (app_first env env2 w))))"
    using header_has_no_bitmap_or_button(3) [of e2] by (simp add: run2)
  show "\<not> list_ex is_bitmap
          (drop (length (ui w)) (ui (streamlit_run (app_first env env2 w))))"
    using header_has_no_bitmap_or_button(1) [of e2] by (simp add: run2)
  show "\<not> list_ex is_run_button
          (drop (length (ui w)) (ui (streamlit_run (app_first env env2 w))))"
    using header_has_no_bitmap_or_button(2) [of e2] by (simp add: run2)
next
  assume ok: "\<not> button_run_ocr env
          \<and> (pil_open_convert env f ''L'' = Inr im
               \<or> (\<exists>e. pil_open_convert env f ''L'' = Inl e)
                  \<and> pil_open_convert env f ''RGB'' = Inr im)"
  then have nb: "\<not> button_run_ocr env"
    and dec: "pil_open_convert env f ''L'' = Inr im
               \<or> (\<exists>e. pil_open_convert env f ''L'' = Inl e)
                  \<and> pil_open_convert env f ''RGB'' = Inr im" by simp_all
  note s1 = app_streamlit_shows_decoded [OF assms nb dec, of w]
  note s2 = app_first_shows_decoded [OF assms nb dec, of env2 w]
  show "fst (app_streamlit env w) = None" using s1 by simp
  show "ui (snd (app_streamlit env w)) =
              ui (streamlit_sidebar (emits (streamlit_header @
                [St_image (length (heap w)) [Lit ''Uploaded image''], St_button ''Run OCR'']) w))"
    using s1 by simp
  show "heap (snd (app_streamlit env w)) = heap w @ [im]" using s1 by simp
  show "fst (app_first env env2 w) = None" using s2 by simp
  show "ui (snd (app_first env env2 w)) =
              ui w @ streamlit_header @
                [St_image (length (heap w)) [Lit ''Uploaded image''], St_button ''Run OCR'']"
    using s2 by simp
  show "heap (snd (app_first env env2 w)) = heap w @ [im]" using s2 by simp
qed

theorem decode_tries_grayscale_then_rgb_witness:
  "file_uploader demo_env_undecodable = Some ''PNG''
   \<and> pil_open_convert demo_env_undecodable ''PNG'' ''L''
       = Inl (PyException ''cannot identify image file'')
   \<and> pil_open_convert demo_env_undecodable ''PNG'' ''RGB''
       = Inl (PyException ''cannot identify image file'')
   \<and> decode_attempts (calls (snd (app_streamlit demo_env_undecodable demo_world)))
       = [Image_open_convert ''PNG'' ''L'', Image_open_convert ''PNG'' ''RGB'']
   \<and> fst (app_first demo_env_undecodable demo_env demo_world)
       = Some (PyException ''cannot identify image file'')
   \<and> ui (snd (app_first demo_env_undecodable demo_env demo_world)) = streamlit_header
   \<and> ui (streamlit_run (app_streamlit demo_env_undecodable demo_world))
       = [St_set_page_config ''My Kraken Model'' ''centered'',
          St_title ''My Kraken Model'',
          St_write [''Upload an image; text will be recognized using the Kraken HTR model.''],
          St_text_input ''Model path'' ''models/vilne_yiddish_8a.mlmodel'',
          St_file_uploader ''Upload an image'' [''png'', ''jpg'', ''jpeg'', ''tif'', ''tiff''],
          St_exception (PyException ''cannot identify image file'')]
   \<and> file_uploader (demo_env\<lparr>button_run_ocr := False\<rparr>) = Some ''PNG''
   \<and> \<not> button_run_ocr (demo_env\<lparr>button_run_ocr := False\<rparr>)
   \<and> pil_open_convert (demo_env\<lparr>button_run_ocr := False\<rparr>) ''PNG'' ''L'' = Inr demo_image
   \<and> decode_attempts (calls (snd (app_first (demo_env\<lparr>button_run_ocr := False\<rparr>) demo_env
         demo_world)))
       = [Image_open_convert ''PNG'' ''L'']
   \<and> ui (snd (app_first (demo_env\<lparr>button_run_ocr := False\<rparr>) demo_env demo_world))
       = streamlit_header @ [St_image 1 [Lit ''Uploaded image''], St_button ''Run OCR'']"
proof -
  have u: "file_uploader demo_env_undecodable = Some ''PNG''"
    by (simp add: demo_env_undecodable_def demo_env_def)
  have v: "file_uploader (demo_env\<lparr>button_run_ocr := False\<rparr>) = Some ''PNG''"
    by (simp add: demo_env_def)
  show ?thesis
    using decode_tries_grayscale_then_rgb [OF u, of demo_world demo_env
            "PyException ''cannot identify image file''"
            "PyException ''cannot identify image file''" demo_image]
      decode_tries_grayscale_then_rgb [OF v, of demo_world demo_env
            "PyException ''cannot identify image file''"
            "PyException ''cannot identify image file''" demo_image]
    by (simp add: demo_env_undecodable_def demo_env_def demo_world_def decode_attempts_def
          streamlit_header_def DEFAULT_MODEL_PATH_def)
qed

end
